theory Spec2Isabelle
  imports Main "HOL-Library.Sublist" "HOL-Library.AList"
begin

section \<open>Python values, exceptions and effects\<close>

text \<open>
  The agents of \<^verbatim>\<open>ROUND_2/agents/agent_nodes.py\<close> are Python closures over a shared
  dictionary (the run state). Values are dynamically typed, so the model has one type of
  Python values. A dictionary is an association list in insertion order (Python
  dictionaries iterate in that order); \<open>map_of\<close> looks a key up and \<open>AList.update\<close>
  stores a value the way \<^verbatim>\<open>d[k] = v\<close> does (an existing key keeps its position).
  A string is a list of characters, one per code point below 256.
\<close>

datatype pyval =
    PNone
  | PBool bool
  | PInt int
  | PFloat int int
  | PStr string
  | PList "pyval list"
  | PDict "(string \<times> pyval) list"

type_synonym pydict = "(string \<times> pyval) list"

text \<open>An exception is its class name and the text \<^verbatim>\<open>str(e)\<close> gives. Only instances of
  \<^verbatim>\<open>Exception\<close> are modelled: they are what \<^verbatim>\<open>except Exception\<close> catches.\<close>

datatype py_exception = PyException (exc_class: string) (exc_str: string)

fun type_name :: "pyval \<Rightarrow> string" where
  "type_name PNone = ''NoneType''"
| "type_name (PBool _) = ''bool''"
| "type_name (PInt _) = ''int''"
| "type_name (PFloat _ _) = ''float''"
| "type_name (PStr _) = ''str''"
| "type_name (PList _) = ''list''"
| "type_name (PDict _) = ''dict''"

definition bind_r :: "py_exception + 'a \<Rightarrow> ('a \<Rightarrow> py_exception + 'b) \<Rightarrow> py_exception + 'b" where
  "bind_r m f = (case m of Inl e \<Rightarrow> Inl e | Inr a \<Rightarrow> f a)"

text \<open>\<^verbatim>\<open>xs[i]\<close> for a non-negative index: IndexError out of range.\<close>

definition py_index :: "'a list \<Rightarrow> nat \<Rightarrow> py_exception + 'a" where
  "py_index xs i =
     (if i < length xs then Inr (xs ! i)
      else Inl (PyException ''IndexError'' ''list index out of range''))"

text \<open>\<^verbatim>\<open>s[-1]\<close> on a string.\<close>

definition py_last_char :: "string \<Rightarrow> py_exception + string" where
  "py_last_char s =
     (if s = [] then Inl (PyException ''IndexError'' ''string index out of range'')
      else Inr [last s])"

text \<open>\<^verbatim>\<open>for x in v\<close>: a list gives its elements, a string its characters, a dictionary
  its keys; anything else is not iterable.\<close>

definition py_iter :: "pyval \<Rightarrow> py_exception + pyval list" where
  "py_iter v =
     (case v of
        PList xs \<Rightarrow> Inr xs
      | PStr s \<Rightarrow> Inr (map (\<lambda>c. PStr [c]) s)
      | PDict d \<Rightarrow> Inr (map (\<lambda>(k, _). PStr k) d)
      | _ \<Rightarrow> Inl (PyException ''TypeError''
                 ([CHR 0x27] @ type_name v @ [CHR 0x27] @ '' object is not iterable'')))"

text \<open>\<^verbatim>\<open>v.get(key, default)\<close>: only a dictionary has the method.\<close>

definition py_get :: "pyval \<Rightarrow> string \<Rightarrow> pyval \<Rightarrow> py_exception + pyval" where
  "py_get v key dflt =
     (case v of
        PDict d \<Rightarrow> Inr (case map_of d key of None \<Rightarrow> dflt | Some x \<Rightarrow> x)
      | _ \<Rightarrow> Inl (PyException ''AttributeError''
                 ([CHR 0x27] @ type_name v @ [CHR 0x27] @ '' object has no attribute ''
                  @ [CHR 0x27] @ ''get'' @ [CHR 0x27])))"

text \<open>\<^verbatim>\<open>d.get(key, default)\<close> where \<open>d\<close> is known to be a dictionary: the run state, a
  search record.\<close>

definition dict_get :: "pydict \<Rightarrow> string \<Rightarrow> pyval \<Rightarrow> pyval" where
  "dict_get d key dflt = (case map_of d key of None \<Rightarrow> dflt | Some x \<Rightarrow> x)"

text \<open>\<^verbatim>\<open>v.items()\<close>: only a dictionary has the method.\<close>

definition py_items :: "pyval \<Rightarrow> py_exception + (string \<times> pyval) list" where
  "py_items v =
     (case v of
        PDict d \<Rightarrow> Inr d
      | _ \<Rightarrow> Inl (PyException ''AttributeError''
                 ([CHR 0x27] @ type_name v @ [CHR 0x27] @ '' object has no attribute ''
                  @ [CHR 0x27] @ ''items'' @ [CHR 0x27])))"

text \<open>Truth value of a Python value, as \<^verbatim>\<open>if not v\<close> tests it.\<close>

fun py_truthy :: "pyval \<Rightarrow> bool" where
  "py_truthy PNone = False"
| "py_truthy (PBool b) = b"
| "py_truthy (PInt n) = (n \<noteq> 0)"
| "py_truthy (PFloat m e) = (m \<noteq> 0)"
| "py_truthy (PStr s) = (s \<noteq> [])"
| "py_truthy (PList xs) = (xs \<noteq> [])"
| "py_truthy (PDict d) = (d \<noteq> [])"

subsection \<open>String methods\<close>

text \<open>The code points below 256 for which \<^verbatim>\<open>str.isspace\<close> holds.\<close>

definition is_space :: "char \<Rightarrow> bool" where
  "is_space c = ((of_char c :: nat) \<in> {9, 10, 11, 12, 13, 28, 29, 30, 31, 32, 133, 160})"

definition py_strip_chars :: "(char \<Rightarrow> bool) \<Rightarrow> string \<Rightarrow> string" where
  "py_strip_chars p s = rev (dropWhile p (rev (dropWhile p s)))"

definition py_strip :: "string \<Rightarrow> string" where
  "py_strip s = py_strip_chars is_space s"

definition py_startswith :: "string \<Rightarrow> string \<Rightarrow> bool" where
  "py_startswith s pre = prefix pre s"

text \<open>The leftmost occurrence of \<open>sep\<close> in a string: the text before it and the text
  after it (what \<^verbatim>\<open>str.partition\<close> computes), or \<open>None\<close> when there is none.\<close>

fun find_sep :: "string \<Rightarrow> string \<Rightarrow> (string \<times> string) option" where
  "find_sep sep [] = (if sep = [] then Some ([], []) else None)"
| "find_sep sep (c # cs) =
     (if prefix sep (c # cs) then Some ([], drop (length sep) (c # cs))
      else (case find_sep sep cs of None \<Rightarrow> None | Some (a, b) \<Rightarrow> Some (c # a, b)))"

text \<open>\<^verbatim>\<open>sub in s\<close> on strings.\<close>

definition py_in :: "string \<Rightarrow> string \<Rightarrow> bool" where
  "py_in sub s = (find_sep sub s \<noteq> None)"

lemma find_sep_Some: "find_sep sep s = Some (a, b) \<Longrightarrow> s = a @ sep @ b"
proof (induction s arbitrary: a b)
  case Nil
  then show ?case by (simp split: if_splits)
next
  case (Cons c cs)
  show ?case
  proof (cases "prefix sep (c # cs)")
    case True
    then obtain r where r: "c # cs = sep @ r" by (auto simp: prefix_def)
    from True Cons.prems have "a = []" "b = drop (length sep) (c # cs)" by simp_all
    with r show ?thesis by simp
  next
    case False
    with Cons.prems obtain a' where "find_sep sep cs = Some (a', b)" "a = c # a'"
      by (auto split: option.splits)
    with Cons.IH show ?thesis by simp
  qed
qed

text \<open>\<^verbatim>\<open>s.split(sep)\<close>: the pieces between the non-overlapping occurrences of \<open>sep\<close>,
  found left to right. Python raises ValueError on an empty separator; every call in the
  source passes a non-empty literal, and the model returns the string unsplit there.\<close>

function py_split :: "string \<Rightarrow> string \<Rightarrow> string list" where
  "py_split sep s =
     (if sep = [] then [s]
      else (case find_sep sep s of None \<Rightarrow> [s] | Some (a, b) \<Rightarrow> a # py_split sep b))"
  by pat_completeness auto
termination
proof (relation "measure (\<lambda>(sep, s). length s)")
  show "wf (measure (\<lambda>(sep, s). length s))" by simp
next
  fix sep s :: string and x2 a b
  assume "sep \<noteq> []" "find_sep sep s = Some x2" "(a, b) = x2"
  then have "s = a @ sep @ b" by (simp add: find_sep_Some)
  then have "length s = length a + length sep + length b" by simp
  with \<open>sep \<noteq> []\<close> show "((sep, b), (sep, s)) \<in> measure (\<lambda>(sep, s). length s)" by simp
qed

declare py_split.simps [simp del]

text \<open>Decimal rendering of a natural number, as an f-string renders an \<^verbatim>\<open>int\<close>.\<close>

function str_of_nat :: "nat \<Rightarrow> string" where
  "str_of_nat n =
     (if n < 10 then [char_of (48 + n)]
      else str_of_nat (n div 10) @ [char_of (48 + n mod 10)])"
  by pat_completeness auto
termination
  by (relation "measure id") auto

declare str_of_nat.simps [simp del]

text \<open>An f-string renders a string as itself. How Python renders any other value
  (\<^verbatim>\<open>str()\<close> of a number, a list, a dictionary) is a parameter.\<close>

definition py_str :: "(pyval \<Rightarrow> string) \<Rightarrow> pyval \<Rightarrow> string" where
  "py_str other v = (case v of PStr s \<Rightarrow> s | _ \<Rightarrow> other v)"

subsection \<open>Collaborators and the world\<close>

datatype message = SystemMessage string | HumanMessage string

datatype llm = ChatOpenAI (model: string) (temperature: int) (api_key: string)

text \<open>The calls that leave the program, in the order they are made.\<close>

datatype call =
    ModelCall llm "message list"
  | SearchCall pyval
  | MkdirCall "string list"
  | WriteCall "string list" string

text \<open>
  The collaborators are outside the repository: the process environment, the language
  model (\<^verbatim>\<open>llm.invoke\<close>, returning the response's content), the search tool
  (\<^verbatim>\<open>simple_search\<close>, returning a list of dictionaries), the file system, and the
  library functions \<^verbatim>\<open>json.loads\<close>, \<^verbatim>\<open>str\<close> on a value that is not a string, and
  \<^verbatim>\<open>str.upper\<close>. The persona texts of \<^verbatim>\<open>experts/group_1\<close> to \<^verbatim>\<open>experts/group_5\<close> are
  a table from the constant's name to its text. Each effectful one reads and updates an opaque state \<open>'o\<close>, so it may
  answer differently from one call to the next, and each may raise. Printing to the
  console is left out.
\<close>

record 'o collaborators =
  getenv :: "'o \<Rightarrow> string \<Rightarrow> string option"
  llm_invoke :: "'o \<Rightarrow> llm \<Rightarrow> message list \<Rightarrow> (py_exception + string) \<times> 'o"
  simple_search :: "'o \<Rightarrow> pyval \<Rightarrow> (py_exception + pydict list) \<times> 'o"
  mkdir :: "'o \<Rightarrow> string list \<Rightarrow> (py_exception + unit) \<times> 'o"
  write_text :: "'o \<Rightarrow> string list \<Rightarrow> string \<Rightarrow> (py_exception + unit) \<times> 'o"
  json_loads :: "string \<Rightarrow> py_exception + pyval"
  str_other :: "pyval \<Rightarrow> string"
  upper :: "string \<Rightarrow> string"
  persona :: "string \<Rightarrow> string"

record 'o world =
  outside :: "'o"
  calls :: "call list"

type_synonym ('o, 'a) action = "'o world \<Rightarrow> (py_exception + 'a) \<times> 'o world"

definition ret :: "'a \<Rightarrow> ('o, 'a) action" where
  "ret a w = (Inr a, w)"

definition raise :: "py_exception \<Rightarrow> ('o, 'a) action" where
  "raise e w = (Inl e, w)"

definition bind :: "('o, 'a) action \<Rightarrow> ('a \<Rightarrow> ('o, 'b) action) \<Rightarrow> ('o, 'b) action" where
  "bind m f w = (case m w of (Inl e, w') \<Rightarrow> (Inl e, w') | (Inr a, w') \<Rightarrow> f a w')"

text \<open>\<^verbatim>\<open>try: body except Exception as e: handler(e)\<close>.\<close>

definition try_except :: "('o, 'a) action \<Rightarrow> (py_exception \<Rightarrow> ('o, 'a) action) \<Rightarrow> ('o, 'a) action" where
  "try_except body handler w =
     (case body w of (Inl e, w') \<Rightarrow> handler e w' | (Inr a, w') \<Rightarrow> (Inr a, w'))"

definition lift_r :: "py_exception + 'a \<Rightarrow> ('o, 'a) action" where
  "lift_r r w = (r, w)"

definition call_invoke :: "'o collaborators \<Rightarrow> llm \<Rightarrow> message list \<Rightarrow> ('o, string) action" where
  "call_invoke env l msgs w =
     (case llm_invoke env (outside w) l msgs of
        (r, out) \<Rightarrow> (r, \<lparr>outside = out, calls = calls w @ [ModelCall l msgs]\<rparr>))"

definition call_search :: "'o collaborators \<Rightarrow> pyval \<Rightarrow> ('o, pydict list) action" where
  "call_search env query w =
     (case simple_search env (outside w) query of
        (r, out) \<Rightarrow> (r, \<lparr>outside = out, calls = calls w @ [SearchCall query]\<rparr>))"

definition call_mkdir :: "'o collaborators \<Rightarrow> string list \<Rightarrow> ('o, unit) action" where
  "call_mkdir env path w =
     (case mkdir env (outside w) path of
        (r, out) \<Rightarrow> (r, \<lparr>outside = out, calls = calls w @ [MkdirCall path]\<rparr>))"

definition call_write :: "'o collaborators \<Rightarrow> string list \<Rightarrow> string \<Rightarrow> ('o, unit) action" where
  "call_write env path text w =
     (case write_text env (outside w) path text of
        (r, out) \<Rightarrow> (r, \<lparr>outside = out, calls = calls w @ [WriteCall path text]\<rparr>))"

section \<open>The expert task\<close>

text \<open>\<^verbatim>\<open>get_model\<close>: an OpenAI client when the key is set to a non-empty string.\<close>

definition get_model :: "'o collaborators \<Rightarrow> ('o, llm) action" where
  "get_model env w =
     (case getenv env (outside w) ''OPENAI_API_KEY'' of
        Some k \<Rightarrow>
          (if k \<noteq> [] then (Inr (ChatOpenAI ''gpt-4o-mini'' 0 k), w)
           else (Inl (PyException ''ValueError'' ''No API key found for OpenAI''), w))
      | None \<Rightarrow> (Inl (PyException ''ValueError'' ''No API key found for OpenAI''), w))"

definition query_generation_prompt :: "string \<Rightarrow> string \<Rightarrow> string \<Rightarrow> string" where
  "query_generation_prompt system_prompt question expert_name =
     ''\<newline>    '' @ system_prompt @ ''\<newline>'' @
     ''    \<newline>'' @
     ''    Your task is to generate 3-5 specific search queries that will help gather information to answer the following question from your expert perspective:\<newline>'' @
     ''    \<newline>'' @
     ''    QUESTION: '' @ question @ ''\<newline>'' @
     ''    \<newline>'' @
     ''    INSTRUCTIONS:\<newline>'' @
     ''    1. Consider what information you need as a '' @ expert_name @
     '' to properly answer this question\<newline>'' @
     ''    2. Create search queries that will find relevant, current information about the Vietnamese market\<newline>'' @
     ''    3. Make your queries specific and focused\<newline>'' @
     ''    4. Format your response as a JSON list of strings containing only the queries\<newline>'' @
     ''    \<newline>'' @
     ''    Format example:\<newline>'' @
     ''    {\<newline>'' @
     ''        \"queries\": [\<newline>'' @
     ''            \"query 1\",\<newline>'' @
     ''            \"query 2\",\<newline>'' @
     ''            \"query 3\"\<newline>'' @
     ''        ]\<newline>'' @
     ''    }\<newline>'' @
     ''    ''"

text \<open>The text handed to \<^verbatim>\<open>json.loads\<close>: the inside of the first fenced block when there
  is one, the content itself otherwise.\<close>

definition extract_json_str :: "string \<Rightarrow> py_exception + string" where
  "extract_json_str content =
     (if py_in ''```json'' content then
        bind_r (py_index (py_split ''```json'' content) 1) (\<lambda>rest.
        bind_r (py_index (py_split ''```'' rest) 0) (\<lambda>inner. Inr (py_strip inner)))
      else if py_in ''```'' content then
        bind_r (py_index (py_split ''```'' content) 1) (\<lambda>rest.
        bind_r (py_index (py_split ''```'' rest) 0) (\<lambda>inner. Inr (py_strip inner)))
      else Inr content)"

text \<open>The body of the \<^verbatim>\<open>try\<close> in \<^verbatim>\<open>generate_search_queries\<close>.\<close>

definition parse_queries :: "(string \<Rightarrow> py_exception + pyval) \<Rightarrow> string \<Rightarrow> py_exception + pyval" where
  "parse_queries loads content =
     bind_r (extract_json_str content) (\<lambda>json_str.
     bind_r (loads json_str) (\<lambda>queries_data.
     py_get queries_data ''queries'' (PList [])))"

definition is_quote :: "char \<Rightarrow> bool" where
  "is_quote c = (c = CHR 0x22 \<or> c = CHR 0x27)"

definition is_comma :: "char \<Rightarrow> bool" where
  "is_comma c = (c = CHR '','')"

text \<open>The \<^verbatim>\<open>except\<close> branch: the lines that start with a quote once stripped of white
  space, each cleaned by \<^verbatim>\<open>line.strip().strip('"\'').strip(',')\<close>, the first five.\<close>

definition quoted_line :: "string \<Rightarrow> bool" where
  "quoted_line line =
     (py_startswith (py_strip line) [CHR 0x22] \<or> py_startswith (py_strip line) [CHR 0x27])"

definition clean_line :: "string \<Rightarrow> string" where
  "clean_line line = py_strip_chars is_comma (py_strip_chars is_quote (py_strip line))"

definition fallback_queries :: "string \<Rightarrow> string list" where
  "fallback_queries content =
     take 5 (map clean_line (filter quoted_line (py_split ''\<newline>'' content)))"

definition extract_queries :: "(string \<Rightarrow> py_exception + pyval) \<Rightarrow> string \<Rightarrow> pyval" where
  "extract_queries loads content =
     (case parse_queries loads content of
        Inr queries \<Rightarrow> queries
      | Inl e \<Rightarrow> PList (map PStr (fallback_queries content)))"

definition query_messages :: "(pyval \<Rightarrow> string) \<Rightarrow> string \<Rightarrow> pyval \<Rightarrow> string \<Rightarrow> message list" where
  "query_messages other system_prompt question expert_name =
     [SystemMessage ''You are a helpful assistant that generates search queries.'',
      HumanMessage (query_generation_prompt system_prompt (py_str other question) expert_name)]"

definition generate_search_queries ::
  "'o collaborators \<Rightarrow> llm \<Rightarrow> string \<Rightarrow> pyval \<Rightarrow> string \<Rightarrow> ('o, pyval) action" where
  "generate_search_queries env l system_prompt question expert_name =
     bind (call_invoke env l (query_messages (str_other env) system_prompt question expert_name))
       (\<lambda>content. ret (extract_queries (json_loads env) content))"

text \<open>\<^verbatim>\<open>perform_searches\<close>: a search that raises is skipped; the results of the others are
  concatenated in query order. Iterating over the queries is outside the inner
  \<^verbatim>\<open>try\<close>, so a value that is not iterable raises.\<close>

fun search_each ::
  "'o collaborators \<Rightarrow> pyval list \<Rightarrow> pydict list \<Rightarrow> 'o world \<Rightarrow> pydict list \<times> 'o world" where
  "search_each env [] all_results w = (all_results, w)"
| "search_each env (query # queries) all_results w =
     (case call_search env query w of
        (Inr results, w') \<Rightarrow> search_each env queries (all_results @ results) w'
      | (Inl e, w') \<Rightarrow> search_each env queries all_results w')"

definition perform_searches :: "'o collaborators \<Rightarrow> pyval \<Rightarrow> string \<Rightarrow> ('o, pydict list) action" where
  "perform_searches env queries expert_name w =
     (case py_iter queries of
        Inl e \<Rightarrow> (Inl e, w)
      | Inr qs \<Rightarrow> (case search_each env qs [] w of (all_results, w') \<Rightarrow> (Inr all_results, w')))"

definition render_result :: "(pyval \<Rightarrow> string) \<Rightarrow> nat \<times> pydict \<Rightarrow> string" where
  "render_result other ir =
     (case ir of (i, result) \<Rightarrow>
        ''Result '' @ str_of_nat (i + 1) @ '':\<newline>'' @
        ''Title: '' @ py_str other (dict_get result ''title'' (PStr ''No title'')) @ ''\<newline>'' @
        ''Link: '' @ py_str other (dict_get result ''link'' (PStr ''No link'')) @ ''\<newline>'' @
        ''Snippet: '' @ py_str other (dict_get result ''snippet'' (PStr ''No snippet''))
          @ ''\<newline>\<newline>'')"

definition compile_search_results :: "(pyval \<Rightarrow> string) \<Rightarrow> pydict list \<Rightarrow> string" where
  "compile_search_results other results =
     ''SEARCH RESULTS:\<newline>\<newline>'' @ concat (map (render_result other) (enumerate 0 results))"

definition analysis_prompt :: "string \<Rightarrow> string \<Rightarrow> string \<Rightarrow> string \<Rightarrow> string" where
  "analysis_prompt system_prompt question search_results expert_name =
     ''\<newline>    '' @ system_prompt @ ''\<newline>'' @
     ''    \<newline>'' @
     ''    USER QUESTION:\<newline>'' @
     ''    '' @ question @ ''\<newline>'' @
     ''    \<newline>'' @
     ''    '' @ search_results @ ''\<newline>'' @
     ''    \<newline>'' @
     ''    INSTRUCTIONS:\<newline>'' @
     ''    As a '' @ expert_name @
     '', provide a detailed analysis to answer the question based on:\<newline>'' @
     ''    1. Your expert knowledge of the Vietnamese market\<newline>'' @
     ''    2. The information from the search results\<newline>'' @
     ''    \<newline>'' @
     ''    Your analysis should:\<newline>'' @
     ''    - Be thorough and insightful\<newline>'' @
     ''    - Include specific recommendations where appropriate\<newline>'' @
     ''    - Cite sources from the search results where possible\<newline>'' @
     ''    - End with a \"References\" section listing your sources\<newline>'' @
     ''    \<newline>'' @
     ''    Format your response as a professional analysis report.\<newline>'' @
     ''    ''"

definition analysis_messages ::
  "(pyval \<Rightarrow> string) \<Rightarrow> string \<Rightarrow> pyval \<Rightarrow> string \<Rightarrow> string \<Rightarrow> message list" where
  "analysis_messages other system_prompt question search_results expert_name =
     [SystemMessage ''You are a financial expert specialized in the Vietnamese market.'',
      HumanMessage (analysis_prompt system_prompt (py_str other question) search_results
                      expert_name)]"

definition analyze_results ::
  "'o collaborators \<Rightarrow> llm \<Rightarrow> string \<Rightarrow> pyval \<Rightarrow> string \<Rightarrow> string \<Rightarrow> ('o, string) action" where
  "analyze_results env l system_prompt question search_results expert_name =
     call_invoke env l
       (analysis_messages (str_other env) system_prompt question search_results expert_name)"

text \<open>Paths are relative to the directory of the module. Opening the file, the three
  writes and closing it are one call of the file system.\<close>

definition expert_responses_dir :: "string list" where
  "expert_responses_dir = [''investment_strategies'', ''expert_responses'']"

definition save_expert_analysis ::
  "'o collaborators \<Rightarrow> string \<Rightarrow> string \<Rightarrow> pyval \<Rightarrow> ('o, unit) action" where
  "save_expert_analysis env expert_name analysis question =
     bind (call_mkdir env expert_responses_dir) (\<lambda>_.
     call_write env (expert_responses_dir @ [expert_name @ ''.txt''])
       (''=== ANALYSIS FROM '' @ upper env expert_name @ '' ===\<newline>\<newline>'' @
        ''Question: '' @ py_str (str_other env) question @ ''\<newline>\<newline>'' @
        analysis))"

text \<open>What an expert returns when all five steps succeed, and what the handler returns.
  A dictionary display stores its entries left to right, so a repeated key keeps the
  last value.\<close>

definition expert_success :: "string \<Rightarrow> string \<Rightarrow> string \<Rightarrow> pyval \<Rightarrow> pydict list \<Rightarrow> pydict" where
  "expert_success group_key agent_name analysis queries search_results =
     AList.update ''search_results''
       (PDict [(agent_name @ ''_search'',
                PDict [(''queries'', queries), (''results'', PList (map PDict search_results))])])
       [(group_key, PDict [(agent_name, PStr analysis)])]"

definition expert_failure :: "string \<Rightarrow> string \<Rightarrow> py_exception \<Rightarrow> pydict" where
  "expert_failure group_key agent_name e =
     AList.update ''search_results''
       (PDict [(agent_name @ ''_search'', PDict [(''error'', PStr (exc_str e))])])
       [(group_key, PDict [(agent_name, PStr (''Error in analysis: '' @ exc_str e))])]"

text \<open>The body of the \<^verbatim>\<open>try\<close> in \<^verbatim>\<open>expert_analysis\<close>: steps 1 to 4 (the model, the
  queries, the searches, the compiled results and the analysis), then step 5 (saving the
  analysis) and the return.\<close>

definition expert_steps ::
  "'o collaborators \<Rightarrow> string \<Rightarrow> string \<Rightarrow> pyval \<Rightarrow> ('o, pyval \<times> pydict list \<times> string) action" where
  "expert_steps env system_prompt agent_name question =
     bind (get_model env) (\<lambda>l.
     bind (generate_search_queries env l system_prompt question agent_name) (\<lambda>queries.
     bind (perform_searches env queries agent_name) (\<lambda>search_results.
     let compiled_results = compile_search_results (str_other env) search_results in
     bind (analyze_results env l system_prompt question compiled_results agent_name) (\<lambda>analysis.
     ret (queries, search_results, analysis)))))"

definition expert_body ::
  "'o collaborators \<Rightarrow> string \<Rightarrow> string \<Rightarrow> string \<Rightarrow> string \<Rightarrow> pydict \<Rightarrow> ('o, pydict) action" where
  "expert_body env system_prompt agent_name group_key question_key state =
     (let question = dict_get state question_key (PStr '''') in
      bind (expert_steps env system_prompt agent_name question) (\<lambda>(queries, search_results, analysis).
      bind (save_expert_analysis env agent_name analysis question) (\<lambda>_.
      ret (expert_success group_key agent_name analysis queries search_results))))"

definition expert_analysis ::
  "'o collaborators \<Rightarrow> string \<Rightarrow> string \<Rightarrow> string \<Rightarrow> string \<Rightarrow> pydict \<Rightarrow> ('o, pydict) action" where
  "expert_analysis env system_prompt agent_name group_key question_key state =
     try_except (expert_body env system_prompt agent_name group_key question_key state)
       (\<lambda>e. ret (expert_failure group_key agent_name e))"

text \<open>A node of a graph: a function from the run state to the update it returns.\<close>

type_synonym 'o node = "pydict \<Rightarrow> ('o, pydict) action"

text \<open>\<^verbatim>\<open>create_expert_agent\<close> computes the question key from the last character of the
  group key when the agent is created, and returns the closure.\<close>

definition question_key_of :: "string \<Rightarrow> py_exception + string" where
  "question_key_of group_key = bind_r (py_last_char group_key) (\<lambda>c. Inr (''question_'' @ c))"

definition create_expert_agent ::
  "'o collaborators \<Rightarrow> string \<Rightarrow> string \<Rightarrow> string \<Rightarrow> py_exception + 'o node" where
  "create_expert_agent env system_prompt agent_name group_key =
     bind_r (question_key_of group_key) (\<lambda>question_key.
     Inr (expert_analysis env system_prompt agent_name group_key question_key))"

section \<open>The group summarizer and the final synthesizer\<close>

text \<open>\<^verbatim>\<open>key in v\<close> and \<^verbatim>\<open>v[key]\<close> for a string key and any value.\<close>

definition py_contains :: "string \<Rightarrow> pyval \<Rightarrow> py_exception + bool" where
  "py_contains key v =
     (case v of
        PDict d \<Rightarrow> Inr (map_of d key \<noteq> None)
      | PList xs \<Rightarrow> Inr (PStr key \<in> set xs)
      | PStr s \<Rightarrow> Inr (py_in key s)
      | _ \<Rightarrow> Inl (PyException ''TypeError''
                 (''argument of type '' @ [CHR 0x27] @ type_name v @ [CHR 0x27]
                  @ '' is not iterable'')))"

definition py_getitem :: "pyval \<Rightarrow> string \<Rightarrow> py_exception + pyval" where
  "py_getitem v key =
     (case v of
        PDict d \<Rightarrow>
          (case map_of d key of
             Some x \<Rightarrow> Inr x
           | None \<Rightarrow> Inl (PyException ''KeyError'' ([CHR 0x27] @ key @ [CHR 0x27])))
      | PList xs \<Rightarrow>
          Inl (PyException ''TypeError'' ''list indices must be integers or slices, not str'')
      | PStr s \<Rightarrow>
          Inl (PyException ''TypeError''
                 (''string indices must be integers, not '' @ [CHR 0x27] @ ''str'' @ [CHR 0x27]))
      | _ \<Rightarrow> Inl (PyException ''TypeError''
                 ([CHR 0x27] @ type_name v @ [CHR 0x27] @ '' object is not subscriptable'')))"

text \<open>The first loop of \<^verbatim>\<open>summarize_group\<close>: the analyses stored under the group key.\<close>

definition render_analysis :: "(pyval \<Rightarrow> string) \<Rightarrow> string \<times> pyval \<Rightarrow> string" where
  "render_analysis other ea =
     (case ea of (expert, analysis) \<Rightarrow>
        ''### Analysis from '' @ expert @ '':\<newline>'' @ py_str other analysis @ ''\<newline>\<newline>'')"

definition render_analyses :: "(pyval \<Rightarrow> string) \<Rightarrow> pydict \<Rightarrow> string \<Rightarrow> py_exception + string" where
  "render_analyses other state group_key =
     (case map_of state group_key of
        None \<Rightarrow> Inr []
      | Some v \<Rightarrow> bind_r (py_items v) (\<lambda>entries. Inr (concat (map (render_analysis other) entries))))"

text \<open>The second loop: for one expert, the lines it adds to \<^verbatim>\<open>search_info\<close>.\<close>

definition search_info_of :: "(pyval \<Rightarrow> string) \<Rightarrow> pydict \<Rightarrow> string \<Rightarrow> py_exception + string" where
  "search_info_of other state expert =
     (let search_key = expert @ ''_search'' in
      bind_r (py_contains search_key (dict_get state ''search_results'' (PDict []))) (\<lambda>found.
      if found then
        bind_r (py_getitem (PDict state) ''search_results'') (\<lambda>all_searches.
        bind_r (py_getitem all_searches search_key) (\<lambda>search_data.
        bind_r (py_contains ''queries'' search_data) (\<lambda>has_queries.
        if has_queries then
          bind_r (py_getitem search_data ''queries'') (\<lambda>queries.
          bind_r (py_iter queries) (\<lambda>qs.
          Inr (''\<newline>### Search queries from '' @ expert @ '':\<newline>'' @
               concat (map (\<lambda>query. ''- '' @ py_str other query @ ''\<newline>'') qs))))
        else Inr [])))
      else Inr []))"

fun search_info_all :: "(pyval \<Rightarrow> string) \<Rightarrow> pydict \<Rightarrow> string list \<Rightarrow> py_exception + string" where
  "search_info_all other state [] = Inr []"
| "search_info_all other state (expert # experts) =
     bind_r (search_info_of other state expert) (\<lambda>info.
     bind_r (search_info_all other state experts) (\<lambda>rest. Inr (info @ rest)))"

definition summary_prompt :: "string \<Rightarrow> string \<Rightarrow> string \<Rightarrow> string \<Rightarrow> string" where
  "summary_prompt group_name question expert_analyses search_info =
     ''\<newline>            You are a group coordinator for the '' @ group_name @
     '' expert team.\<newline>'' @
     ''            \<newline>'' @
     ''            Your task is to create a comprehensive summary of the following expert analyses to answer this user question:\<newline>'' @
     ''            \<newline>'' @
     ''            USER QUESTION:\<newline>'' @
     ''            '' @ question @ ''\<newline>'' @
     ''            \<newline>'' @
     ''            EXPERT ANALYSES:\<newline>'' @
     ''            '' @ expert_analyses @ ''\<newline>'' @
     ''            \<newline>'' @
     ''            SEARCH INFORMATION:\<newline>'' @
     ''            '' @ search_info @ ''\<newline>'' @
     ''            \<newline>'' @
     ''            Create a thorough summary that:\<newline>'' @
     ''            1. Highlights the key insights from all experts\<newline>'' @
     ''            2. Identifies areas of consensus and important differences\<newline>'' @
     ''            3. Directly answers the user'' @ [CHR 0x27] @ ''s question\<newline>'' @
     ''            4. Provides actionable investment recommendations\<newline>'' @
     ''            5. Includes citations to sources where appropriate\<newline>'' @
     ''            \<newline>'' @
     ''            Format your response as a professional group analysis report.\<newline>'' @
     ''            ''"

definition group_responses_dir :: "string list" where
  "group_responses_dir = [''investment_strategies'', ''group_responses'']"

text \<open>The display name up to its first parenthesis, stripped.\<close>

definition clean_group_name :: "string \<Rightarrow> py_exception + string" where
  "clean_group_name group_name =
     (if py_in ''('' group_name then
        bind_r (py_index (py_split ''('' group_name) 0) (\<lambda>head. Inr (py_strip head))
      else Inr group_name)"

definition summary_success :: "string \<Rightarrow> string \<Rightarrow> pydict" where
  "summary_success group_name summary = [(''group_summaries'', PDict [(group_name, PStr summary)])]"

definition summary_failure :: "string \<Rightarrow> py_exception \<Rightarrow> pydict" where
  "summary_failure group_name e =
     [(''group_summaries'', PDict [(group_name, PStr (''Error in summary: '' @ exc_str e))])]"

definition summarize_body ::
  "'o collaborators \<Rightarrow> string \<Rightarrow> string list \<Rightarrow> string \<Rightarrow> string \<Rightarrow> pydict \<Rightarrow> ('o, pydict) action" where
  "summarize_body env group_name expert_names group_key question_key state =
     bind (lift_r (render_analyses (str_other env) state group_key)) (\<lambda>expert_analyses.
     bind (lift_r (search_info_all (str_other env) state expert_names)) (\<lambda>search_info.
     let question = dict_get state question_key (PStr ''No question provided'') in
     bind (get_model env) (\<lambda>l.
     bind (call_invoke env l
        [SystemMessage ''You are a financial analysis coordinator.'',
         HumanMessage (summary_prompt group_name (py_str (str_other env) question)
                         expert_analyses search_info)]) (\<lambda>summary.
     bind (call_mkdir env group_responses_dir) (\<lambda>_.
     bind (lift_r (clean_group_name group_name)) (\<lambda>clean.
     bind (call_write env (group_responses_dir @ [clean @ ''.txt''])
        (''=== GROUP SUMMARY: '' @ upper env clean @ '' ===\<newline>\<newline>'' @
         ''Question: '' @ py_str (str_other env) question @ ''\<newline>\<newline>'' @
         summary)) (\<lambda>_.
     ret (summary_success group_name summary))))))))"

definition summarize_group ::
  "'o collaborators \<Rightarrow> string \<Rightarrow> string list \<Rightarrow> string \<Rightarrow> string \<Rightarrow> pydict \<Rightarrow> ('o, pydict) action" where
  "summarize_group env group_name expert_names group_key question_key state =
     try_except (summarize_body env group_name expert_names group_key question_key state)
       (\<lambda>e. ret (summary_failure group_name e))"

definition create_group_summarizer ::
  "'o collaborators \<Rightarrow> string \<Rightarrow> string list \<Rightarrow> string \<Rightarrow> py_exception + 'o node" where
  "create_group_summarizer env group_name expert_names group_key =
     bind_r (question_key_of group_key) (\<lambda>question_key.
     Inr (summarize_group env group_name expert_names group_key question_key))"

text \<open>\<^verbatim>\<open>final_synthesizer\<close>: the question is the canonical field, or else the first
  non-empty copy among \<^verbatim>\<open>question_1\<close> to \<^verbatim>\<open>question_5\<close>, or else a placeholder.\<close>

fun first_copy :: "pydict \<Rightarrow> nat list \<Rightarrow> pyval option" where
  "first_copy state [] = None"
| "first_copy state (i # rest) =
     (case map_of state (''question_'' @ str_of_nat i) of
        Some v \<Rightarrow> (if py_truthy v then Some v else first_copy state rest)
      | None \<Rightarrow> first_copy state rest)"

definition resolve_question :: "pydict \<Rightarrow> pyval" where
  "resolve_question state =
     (let question = dict_get state ''question'' (PStr '''');
          question = (if \<not> py_truthy question
                      then (case first_copy state [1..<6] of Some v \<Rightarrow> v | None \<Rightarrow> question)
                      else question)
      in if \<not> py_truthy question then PStr ''No question provided'' else question)"

definition render_summary :: "(pyval \<Rightarrow> string) \<Rightarrow> string \<times> pyval \<Rightarrow> string" where
  "render_summary other gs =
     (case gs of (group_name, summary) \<Rightarrow>
        ''### Summary from '' @ group_name @ '':\<newline>'' @ py_str other summary @ ''\<newline>\<newline>'')"

definition render_summaries :: "(pyval \<Rightarrow> string) \<Rightarrow> pydict \<Rightarrow> py_exception + string" where
  "render_summaries other state =
     bind_r (py_items (dict_get state ''group_summaries'' (PDict []))) (\<lambda>entries.
     Inr (concat (map (render_summary other) entries)))"

definition synthesis_prompt :: "string \<Rightarrow> string \<Rightarrow> string" where
  "synthesis_prompt question group_summaries_text =
     ''\<newline>        You are a chief investment strategist specialized in the Vietnamese market.\<newline>'' @
     ''        \<newline>'' @
     ''        Your task is to create a comprehensive investment strategy based on the following group summaries:\<newline>'' @
     ''        \<newline>'' @
     ''        USER QUESTION:\<newline>'' @
     ''        '' @ question @ ''\<newline>'' @
     ''        \<newline>'' @
     ''        GROUP SUMMARIES:\<newline>'' @
     ''        '' @ group_summaries_text @ ''\<newline>'' @
     ''        \<newline>'' @
     ''        Create a detailed investment strategy that:\<newline>'' @
     ''        1. Directly answers the user'' @ [CHR 0x27] @ ''s question\<newline>'' @
     ''        2. Provides a market analysis and current trends\<newline>'' @
     ''        3. Includes a strategic asset allocation recommendation\<newline>'' @
     ''        4. Recommends specific sectors and stocks\<newline>'' @
     ''        5. Advises on market entry timing\<newline>'' @
     ''        6. Includes a risk management plan\<newline>'' @
     ''        7. Provides specific actionable steps for investors\<newline>'' @
     ''        \<newline>'' @
     ''        Format your response as a professional investment strategy report with clear sections.\<newline>'' @
     ''        ''"

definition final_messages :: "(pyval \<Rightarrow> string) \<Rightarrow> pyval \<Rightarrow> string \<Rightarrow> message list" where
  "final_messages other question group_summaries_text =
     [SystemMessage ''You are a chief investment strategist for the Vietnamese market.'',
      HumanMessage (synthesis_prompt (py_str other question) group_summaries_text)]"

definition final_body :: "'o collaborators \<Rightarrow> pydict \<Rightarrow> ('o, pydict) action" where
  "final_body env state =
     bind (lift_r (render_summaries (str_other env) state)) (\<lambda>group_summaries_text.
     let question = resolve_question state in
     bind (get_model env) (\<lambda>l.
     bind (call_invoke env l (final_messages (str_other env) question group_summaries_text))
       (\<lambda>final_report.
     bind (call_mkdir env [''investment_strategies'']) (\<lambda>_.
     bind (call_write env [''investment_strategies'', ''final_investment_strategy.txt'']
        (''=== OPTIMAL INVESTMENT STRATEGY ===\<newline>\<newline>'' @
         ''Question: '' @ py_str (str_other env) question @ ''\<newline>\<newline>'' @
         final_report)) (\<lambda>_.
     ret [(''final_report'', PStr final_report)])))))"

definition final_synthesizer :: "'o collaborators \<Rightarrow> 'o node" where
  "final_synthesizer env state =
     try_except (final_body env state)
       (\<lambda>e. ret [(''final_report'', PStr (''Error in final synthesis: '' @ exc_str e))])"

section \<open>The nodes the module creates\<close>

definition market_analyst_node :: "'o collaborators \<Rightarrow> py_exception + 'o node" where
  "market_analyst_node env =
     create_expert_agent env (persona env ''MARKET_ANALYST'') ''market_analyst'' ''group_1''"

definition technical_analyst_node :: "'o collaborators \<Rightarrow> py_exception + 'o node" where
  "technical_analyst_node env =
     create_expert_agent env (persona env ''TECHNICAL_ANALYST'') ''technical_analyst'' ''group_1''"

definition fundamental_analyst_node :: "'o collaborators \<Rightarrow> py_exception + 'o node" where
  "fundamental_analyst_node env =
     create_expert_agent env (persona env ''FUNDAMENTAL_ANALYST'') ''fundamental_analyst'' ''group_1''"

definition sentiment_analyst_node :: "'o collaborators \<Rightarrow> py_exception + 'o node" where
  "sentiment_analyst_node env =
     create_expert_agent env (persona env ''SENTIMENT_ANALYST'') ''sentiment_analyst'' ''group_1''"

definition economic_indicators_node :: "'o collaborators \<Rightarrow> py_exception + 'o node" where
  "economic_indicators_node env =
     create_expert_agent env (persona env ''ECONOMIC_INDICATORS_EXPERT'') ''economic_indicators_expert'' ''group_1''"

definition financial_statement_node :: "'o collaborators \<Rightarrow> py_exception + 'o node" where
  "financial_statement_node env =
     create_expert_agent env (persona env ''FINANCIAL_STATEMENT_ANALYST'') ''financial_statement_analyst'' ''group_2''"

definition financial_ratio_node :: "'o collaborators \<Rightarrow> py_exception + 'o node" where
  "financial_ratio_node env =
     create_expert_agent env (persona env ''FINANCIAL_RATIO_EXPERT'') ''financial_ratio_expert'' ''group_2''"

definition valuation_node :: "'o collaborators \<Rightarrow> py_exception + 'o node" where
  "valuation_node env =
     create_expert_agent env (persona env ''VALUATION_EXPERT'') ''valuation_expert'' ''group_2''"

definition cash_flow_node :: "'o collaborators \<Rightarrow> py_exception + 'o node" where
  "cash_flow_node env =
     create_expert_agent env (persona env ''CASH_FLOW_ANALYST'') ''cash_flow_analyst'' ''group_2''"

definition capital_structure_node :: "'o collaborators \<Rightarrow> py_exception + 'o node" where
  "capital_structure_node env =
     create_expert_agent env (persona env ''CAPITAL_STRUCTURE_EXPERT'') ''capital_structure_expert'' ''group_2''"

definition banking_finance_node :: "'o collaborators \<Rightarrow> py_exception + 'o node" where
  "banking_finance_node env =
     create_expert_agent env (persona env ''BANKING_FINANCE_EXPERT'') ''banking_finance_expert'' ''group_3''"

definition real_estate_node :: "'o collaborators \<Rightarrow> py_exception + 'o node" where
  "real_estate_node env =
     create_expert_agent env (persona env ''REAL_ESTATE_EXPERT'') ''real_estate_expert'' ''group_3''"

definition consumer_goods_node :: "'o collaborators \<Rightarrow> py_exception + 'o node" where
  "consumer_goods_node env =
     create_expert_agent env (persona env ''CONSUMER_GOODS_EXPERT'') ''consumer_goods_expert'' ''group_3''"

definition industrial_node :: "'o collaborators \<Rightarrow> py_exception + 'o node" where
  "industrial_node env =
     create_expert_agent env (persona env ''INDUSTRIAL_EXPERT'') ''industrial_expert'' ''group_3''"

definition technology_node :: "'o collaborators \<Rightarrow> py_exception + 'o node" where
  "technology_node env =
     create_expert_agent env (persona env ''TECHNOLOGY_EXPERT'') ''technology_expert'' ''group_3''"

definition global_markets_node :: "'o collaborators \<Rightarrow> py_exception + 'o node" where
  "global_markets_node env =
     create_expert_agent env (persona env ''GLOBAL_MARKETS_EXPERT'') ''global_markets_expert'' ''group_4''"

definition geopolitical_risk_node :: "'o collaborators \<Rightarrow> py_exception + 'o node" where
  "geopolitical_risk_node env =
     create_expert_agent env (persona env ''GEOPOLITICAL_RISK_ANALYST'') ''geopolitical_risk_analyst'' ''group_4''"

definition regulatory_framework_node :: "'o collaborators \<Rightarrow> py_exception + 'o node" where
  "regulatory_framework_node env =
     create_expert_agent env (persona env ''REGULATORY_FRAMEWORK_EXPERT'') ''regulatory_framework_expert'' ''group_4''"

definition monetary_policy_node :: "'o collaborators \<Rightarrow> py_exception + 'o node" where
  "monetary_policy_node env =
     create_expert_agent env (persona env ''MONETARY_POLICY_EXPERT'') ''monetary_policy_expert'' ''group_4''"

definition demographic_trends_node :: "'o collaborators \<Rightarrow> py_exception + 'o node" where
  "demographic_trends_node env =
     create_expert_agent env (persona env ''DEMOGRAPHIC_TRENDS_EXPERT'') ''demographic_trends_expert'' ''group_4''"

definition game_theory_node :: "'o collaborators \<Rightarrow> py_exception + 'o node" where
  "game_theory_node env =
     create_expert_agent env (persona env ''GAME_THEORY_STRATEGIST'') ''game_theory_strategist'' ''group_5''"

definition risk_management_node :: "'o collaborators \<Rightarrow> py_exception + 'o node" where
  "risk_management_node env =
     create_expert_agent env (persona env ''RISK_MANAGEMENT_EXPERT'') ''risk_management_expert'' ''group_5''"

definition portfolio_optimization_node :: "'o collaborators \<Rightarrow> py_exception + 'o node" where
  "portfolio_optimization_node env =
     create_expert_agent env (persona env ''PORTFOLIO_OPTIMIZATION_EXPERT'') ''portfolio_optimization_expert'' ''group_5''"

definition asset_allocation_node :: "'o collaborators \<Rightarrow> py_exception + 'o node" where
  "asset_allocation_node env =
     create_expert_agent env (persona env ''ASSET_ALLOCATION_STRATEGIST'') ''asset_allocation_strategist'' ''group_5''"

definition investment_psychology_node :: "'o collaborators \<Rightarrow> py_exception + 'o node" where
  "investment_psychology_node env =
     create_expert_agent env (persona env ''INVESTMENT_PSYCHOLOGY_EXPERT'') ''investment_psychology_expert'' ''group_5''"

definition market_analysis_display_name :: string where
  "market_analysis_display_name =
     ''Ph'' @ [CHR 0xC3, CHR 0xA2] @ ''n t'' @ [CHR 0xC3, CHR 0xAD] @ ''ch Th'' @ [CHR 0xE1, CHR 0xBB, CHR 0x8B] @ '' tr'' @ [CHR 0xC6, CHR 0xB0, CHR 0xE1, CHR 0xBB, CHR 0x9D] @ ''ng (Market Analysis)''"

definition market_analysis_expert_names :: "string list" where
  "market_analysis_expert_names =
     [''market_analyst'', ''technical_analyst'', ''fundamental_analyst'', ''sentiment_analyst'', ''economic_indicators_expert'']"

definition market_analysis_group_summarizer :: "'o collaborators \<Rightarrow> py_exception + 'o node" where
  "market_analysis_group_summarizer env =
     create_group_summarizer env market_analysis_display_name market_analysis_expert_names ''group_1''"

definition financial_analysis_display_name :: string where
  "financial_analysis_display_name =
     ''Ph'' @ [CHR 0xC3, CHR 0xA2] @ ''n t'' @ [CHR 0xC3, CHR 0xAD] @ ''ch T'' @ [CHR 0xC3, CHR 0xA0] @ ''i ch'' @ [CHR 0xC3, CHR 0xAD] @ ''nh (Financial Analysis)''"

definition financial_analysis_expert_names :: "string list" where
  "financial_analysis_expert_names =
     [''financial_statement_analyst'', ''financial_ratio_expert'', ''valuation_expert'', ''cash_flow_analyst'', ''capital_structure_expert'']"

definition financial_analysis_group_summarizer :: "'o collaborators \<Rightarrow> py_exception + 'o node" where
  "financial_analysis_group_summarizer env =
     create_group_summarizer env financial_analysis_display_name financial_analysis_expert_names ''group_2''"

definition sectoral_analysis_display_name :: string where
  "sectoral_analysis_display_name =
     ''Ph'' @ [CHR 0xC3, CHR 0xA2] @ ''n t'' @ [CHR 0xC3, CHR 0xAD] @ ''ch Ng'' @ [CHR 0xC3, CHR 0xA0] @ ''nh (Sectoral Analysis)''"

definition sectoral_analysis_expert_names :: "string list" where
  "sectoral_analysis_expert_names =
     [''banking_finance_expert'', ''real_estate_expert'', ''consumer_goods_expert'', ''industrial_expert'', ''technology_expert'']"

definition sectoral_analysis_group_summarizer :: "'o collaborators \<Rightarrow> py_exception + 'o node" where
  "sectoral_analysis_group_summarizer env =
     create_group_summarizer env sectoral_analysis_display_name sectoral_analysis_expert_names ''group_3''"

definition external_factors_display_name :: string where
  "external_factors_display_name =
     ''Y'' @ [CHR 0xE1, CHR 0xBA, CHR 0xBF] @ ''u t'' @ [CHR 0xE1, CHR 0xBB, CHR 0x91] @ '' B'' @ [CHR 0xC3, CHR 0xAA] @ ''n ngo'' @ [CHR 0xC3, CHR 0xA0] @ ''i (External Factors)''"

definition external_factors_expert_names :: "string list" where
  "external_factors_expert_names =
     [''global_markets_expert'', ''geopolitical_risk_analyst'', ''regulatory_framework_expert'', ''monetary_policy_expert'', ''demographic_trends_expert'']"

definition external_factors_group_summarizer :: "'o collaborators \<Rightarrow> py_exception + 'o node" where
  "external_factors_group_summarizer env =
     create_group_summarizer env external_factors_display_name external_factors_expert_names ''group_4''"

definition strategy_display_name :: string where
  "strategy_display_name =
     ''L'' @ [CHR 0xE1, CHR 0xBA, CHR 0xAD] @ ''p chi'' @ [CHR 0xE1, CHR 0xBA, CHR 0xBF] @ ''n l'' @ [CHR 0xC6, CHR 0xB0, CHR 0xE1, CHR 0xBB, CHR 0xA3] @ ''c (Strategy)''"

definition strategy_expert_names :: "string list" where
  "strategy_expert_names =
     [''game_theory_strategist'', ''risk_management_expert'', ''portfolio_optimization_expert'', ''asset_allocation_strategist'', ''investment_psychology_expert'']"

definition strategy_group_summarizer :: "'o collaborators \<Rightarrow> py_exception + 'o node" where
  "strategy_group_summarizer env =
     create_group_summarizer env strategy_display_name strategy_expert_names ''group_5''"

section \<open>Graphs\<close>

text \<open>
  \<^verbatim>\<open>ROUND_2/agents/group_agents.py\<close> describes the pipeline as graphs for an external
  graph-execution library. A graph is its schema, its named nodes and its directed
  edges, in the order the builder adds them.
\<close>

definition InputState :: "string list" where
  "InputState = [''question'']"

definition OutputState :: "string list" where
  "OutputState =
     [''question_1'', ''question_2'', ''question_3'', ''question_4'', ''question_5'',
      ''analyses'', ''group_1'', ''group_2'', ''group_3'', ''group_4'', ''group_5'',
      ''group_summaries'', ''final_report'', ''search_results'']"

definition AgentState :: "string list" where
  "AgentState = InputState @ OutputState"

record 'o state_graph =
  input_schema :: "string list"
  output_schema :: "string list"
  graph_nodes :: "(string \<times> 'o node) list"
  graph_edges :: "(string \<times> string) list"

definition START :: string where
  "START = ''__start__''"

definition END :: string where
  "END = ''__end__''"

definition StateGraph :: "string list \<Rightarrow> string list \<Rightarrow> string list \<Rightarrow> 'o state_graph" where
  "StateGraph state_schema inp outp =
     \<lparr>input_schema = inp, output_schema = outp, graph_nodes = [], graph_edges = []\<rparr>"

definition add_node :: "string \<Rightarrow> 'o node \<Rightarrow> 'o state_graph \<Rightarrow> 'o state_graph" where
  "add_node name f g = g\<lparr>graph_nodes := graph_nodes g @ [(name, f)]\<rparr>"

definition add_edge :: "string \<Rightarrow> string \<Rightarrow> 'o state_graph \<Rightarrow> 'o state_graph" where
  "add_edge a b g = g\<lparr>graph_edges := graph_edges g @ [(a, b)]\<rparr>"

text \<open>\<^verbatim>\<open>create_expert_group_graph\<close>: the experts are named \<^verbatim>\<open>expert_0\<close>, \<^verbatim>\<open>expert_1\<close>, ...
  in the order of the list.\<close>

definition expert_node_names :: "nat \<Rightarrow> string list" where
  "expert_node_names n = map (\<lambda>i. ''expert_'' @ str_of_nat i) [0..<n]"

definition create_expert_group_graph ::
  "string \<Rightarrow> 'o node list \<Rightarrow> 'o node \<Rightarrow> 'o state_graph" where
  "create_expert_group_graph group_name expert_nodes summarizer_node =
     (let workflow = StateGraph AgentState AgentState AgentState;
          expert_names = expert_node_names (length expert_nodes);
          workflow = fold (\<lambda>(i, expert_node). add_node (expert_names ! i) expert_node)
                       (enumerate 0 expert_nodes) workflow;
          summarizer_name = group_name @ ''_summarizer'';
          workflow = add_node summarizer_name summarizer_node workflow;
          workflow =
            (if expert_names \<noteq> [] then
               let workflow = add_edge START (expert_names ! 0) workflow;
                   workflow = fold (\<lambda>i. add_edge (expert_names ! i) (expert_names ! (i + 1)))
                                [0..<length expert_names - 1] workflow
               in add_edge (last expert_names) summarizer_name workflow
             else add_edge START summarizer_name workflow)
      in add_edge summarizer_name END workflow)"

section \<open>The graph engine\<close>

text \<open>
  Modelled from the spec: the graph-execution library (\<^verbatim>\<open>langgraph\<close>) is not part of the
  repository. The spec's sections 3, 4.4 and 9 give its contract: the run state is a set
  of named fields; a mapping field is merged by key union and any other field is
  overwritten by the last writer; a node runs once, after every node with an edge into it
  has delivered its contribution; nodes that are ready together may run in any order or
  at the same time; a compiled graph used as a node runs on the state it is given and
  contributes its final state.
\<close>

definition merge_value :: "pyval \<Rightarrow> pyval \<Rightarrow> pyval" where
  "merge_value old new =
     (case old of
        PDict a \<Rightarrow> (case new of PDict b \<Rightarrow> PDict (fold (\<lambda>(k, v). AList.update k v) b a) | _ \<Rightarrow> new)
      | _ \<Rightarrow> new)"

definition merge_entry :: "string \<times> pyval \<Rightarrow> pydict \<Rightarrow> pydict" where
  "merge_entry kv state =
     (case kv of (k, v) \<Rightarrow>
        AList.update k (case map_of state k of None \<Rightarrow> v | Some old \<Rightarrow> merge_value old v) state)"

definition apply_update :: "pydict \<Rightarrow> pydict \<Rightarrow> pydict" where
  "apply_update state upd = fold merge_entry upd state"

definition restrict_keys :: "string list \<Rightarrow> pydict \<Rightarrow> pydict" where
  "restrict_keys ks d = filter (\<lambda>(k, v). k \<in> set ks) d"

definition preds :: "'o state_graph \<Rightarrow> string \<Rightarrow> string list" where
  "preds g n = map fst (filter (\<lambda>(a, b). b = n) (graph_edges g))"

text \<open>A node may start when it has not run, has an incoming edge, and every edge into it
  comes from the start or from a node that has finished.\<close>

definition ready :: "'o state_graph \<Rightarrow> string list \<Rightarrow> string \<Rightarrow> bool" where
  "ready g finished n =
     (n \<notin> set finished \<and> preds g n \<noteq> [] \<and>
      list_all (\<lambda>a. a = START \<or> a \<in> set finished) (preds g n))"

lemma find_remove1_length: "find P xs = Some x \<Longrightarrow> length (remove1 x xs) < length xs"
proof -
  assume "find P xs = Some x"
  then have "x \<in> set xs" by (auto simp: find_Some_iff)
  then show ?thesis by (simp add: length_remove1) (cases xs, auto)
qed

text \<open>One schedule, as a function: of the nodes that are ready, the one declared first
  runs next. The run ends when no node is ready; an exception from a node ends it.\<close>

function run_nodes ::
  "'o state_graph \<Rightarrow> string list \<Rightarrow> string list \<Rightarrow> pydict \<Rightarrow> ('o, pydict) action" where
  "run_nodes g pending finished state w =
     (case find (ready g finished) pending of
        None \<Rightarrow> (Inr state, w)
      | Some n \<Rightarrow>
          (case map_of (graph_nodes g) n of
             None \<Rightarrow> (Inr state, w)
           | Some f \<Rightarrow>
               (case f state w of
                  (Inl e, w') \<Rightarrow> (Inl e, w')
                | (Inr upd, w') \<Rightarrow>
                    run_nodes g (remove1 n pending) (n # finished) (apply_update state upd) w')))"
  by pat_completeness auto
termination
  by (relation "measure (\<lambda>(g, pending, finished, state, w). length pending)")
     (auto simp: find_remove1_length)

declare run_nodes.simps [simp del]

definition invoke_graph :: "'o state_graph \<Rightarrow> 'o node" where
  "invoke_graph g input w =
     (case run_nodes g (map fst (graph_nodes g)) [] (restrict_keys (input_schema g) input) w of
        (Inl e, w') \<Rightarrow> (Inl e, w')
      | (Inr state, w') \<Rightarrow> (Inr (restrict_keys (output_schema g) state), w'))"

text \<open>Every schedule, as a transition relation: a configuration holds the nodes that are
  running, each with the state it was started on, the nodes that have finished, the run
  state and the world. A node that raises has no transition.\<close>

record 'o config =
  running :: "(string \<times> pydict) list"
  finished :: "string list"
  run_state :: pydict
  the_world :: "'o world"

inductive step :: "'o state_graph \<Rightarrow> 'o config \<Rightarrow> 'o config \<Rightarrow> bool" where
  start:
    "n \<in> set (map fst (graph_nodes g)) \<Longrightarrow> n \<notin> set (map fst (running c)) \<Longrightarrow>
     ready g (finished c) n \<Longrightarrow>
     step g c (c\<lparr>running := (n, run_state c) # running c\<rparr>)"
| finish:
    "(n, snapshot) \<in> set (running c) \<Longrightarrow> map_of (graph_nodes g) n = Some f \<Longrightarrow>
     f snapshot (the_world c) = (Inr upd, w') \<Longrightarrow>
     step g c \<lparr>running = remove1 (n, snapshot) (running c), finished = n # finished c,
               run_state = apply_update (run_state c) upd, the_world = w'\<rparr>"

definition initial_config :: "'o state_graph \<Rightarrow> pydict \<Rightarrow> 'o world \<Rightarrow> 'o config" where
  "initial_config g input w =
     \<lparr>running = [], finished = [], run_state = restrict_keys (input_schema g) input,
      the_world = w\<rparr>"

inductive reachable :: "'o state_graph \<Rightarrow> 'o config \<Rightarrow> 'o config \<Rightarrow> bool"
  for g :: "'o state_graph" and c :: "'o config" where
  reach_refl: "reachable g c c"
| reach_step: "reachable g c c' \<Longrightarrow> step g c' c'' \<Longrightarrow> reachable g c c''"

section \<open>The group graphs and the main graph\<close>

fun sequence_r :: "(py_exception + 'a) list \<Rightarrow> py_exception + 'a list" where
  "sequence_r [] = Inr []"
| "sequence_r (r # rs) = bind_r r (\<lambda>x. bind_r (sequence_r rs) (\<lambda>xs. Inr (x # xs)))"

definition market_analysis_group_graph :: "'o collaborators \<Rightarrow> py_exception + 'o state_graph" where
  "market_analysis_group_graph env =
     bind_r (sequence_r [market_analyst_node env, technical_analyst_node env,
                         fundamental_analyst_node env, sentiment_analyst_node env,
                         economic_indicators_node env]) (\<lambda>experts.
     bind_r (market_analysis_group_summarizer env) (\<lambda>summarizer.
     Inr (create_expert_group_graph ''market_analysis'' experts summarizer)))"

definition financial_analysis_group_graph :: "'o collaborators \<Rightarrow> py_exception + 'o state_graph" where
  "financial_analysis_group_graph env =
     bind_r (sequence_r [financial_statement_node env, financial_ratio_node env,
                         valuation_node env, cash_flow_node env,
                         capital_structure_node env]) (\<lambda>experts.
     bind_r (financial_analysis_group_summarizer env) (\<lambda>summarizer.
     Inr (create_expert_group_graph ''financial_analysis'' experts summarizer)))"

definition sectoral_analysis_group_graph :: "'o collaborators \<Rightarrow> py_exception + 'o state_graph" where
  "sectoral_analysis_group_graph env =
     bind_r (sequence_r [banking_finance_node env, real_estate_node env,
                         consumer_goods_node env, industrial_node env,
                         technology_node env]) (\<lambda>experts.
     bind_r (sectoral_analysis_group_summarizer env) (\<lambda>summarizer.
     Inr (create_expert_group_graph ''sectoral_analysis'' experts summarizer)))"

definition external_factors_group_graph :: "'o collaborators \<Rightarrow> py_exception + 'o state_graph" where
  "external_factors_group_graph env =
     bind_r (sequence_r [global_markets_node env, geopolitical_risk_node env,
                         regulatory_framework_node env, monetary_policy_node env,
                         demographic_trends_node env]) (\<lambda>experts.
     bind_r (external_factors_group_summarizer env) (\<lambda>summarizer.
     Inr (create_expert_group_graph ''external_factors'' experts summarizer)))"

definition strategy_group_graph :: "'o collaborators \<Rightarrow> py_exception + 'o state_graph" where
  "strategy_group_graph env =
     bind_r (sequence_r [game_theory_node env, risk_management_node env,
                         portfolio_optimization_node env, asset_allocation_node env,
                         investment_psychology_node env]) (\<lambda>experts.
     bind_r (strategy_group_summarizer env) (\<lambda>summarizer.
     Inr (create_expert_group_graph ''strategy'' experts summarizer)))"





section \<open>Notions used by the properties\<close>

text \<open>The calls of the language model among the calls made so far.\<close>

fun is_model_call :: "call \<Rightarrow> bool" where
  "is_model_call (ModelCall l msgs) = True"
| "is_model_call c = False"

definition model_calls :: "'o world \<Rightarrow> call list" where
  "model_calls w = filter is_model_call (calls w)"

text \<open>The three shapes of a response the extraction is written for: the JSON text alone,
  inside a fence tagged \<^verbatim>\<open>json\<close>, or inside a fence without a tag; and what is handed
  to \<^verbatim>\<open>json.loads\<close> for each. A response is well formed when there is no fence but the
  one shown: no backtick before the fence or inside it, and a closing fence of exactly
  three backticks.\<close>

datatype response =
    Unfenced string
  | FencedJson string string string
  | FencedPlain string string string

fun render_response :: "response \<Rightarrow> string" where
  "render_response (Unfenced body) = body"
| "render_response (FencedJson before body after) = before @ ''```json'' @ body @ ''```'' @ after"
| "render_response (FencedPlain before body after) = before @ ''```'' @ body @ ''```'' @ after"

fun json_text :: "response \<Rightarrow> string" where
  "json_text (Unfenced body) = body"
| "json_text (FencedJson before body after) = py_strip body"
| "json_text (FencedPlain before body after) = py_strip body"

definition backtick_free :: "string \<Rightarrow> bool" where
  "backtick_free s = (CHR 0x60 \<notin> set s)"

fun well_formed_response :: "response \<Rightarrow> bool" where
  "well_formed_response (Unfenced body) = (\<not> py_in ''```'' body)"
| "well_formed_response (FencedJson before body after) =
     (backtick_free before \<and> backtick_free body \<and> \<not> prefix ''`'' after)"
| "well_formed_response (FencedPlain before body after) =
     (backtick_free before \<and> backtick_free body \<and>
      \<not> py_in ''```json'' (before @ ''```'' @ body @ ''```'' @ after))"

text \<open>The successive pairs of a path.\<close>

definition chain :: "'a list \<Rightarrow> ('a \<times> 'a) list" where
  "chain path = zip path (tl path)"

text \<open>Running a list of nodes one after the other, each on the state the previous ones
  have left.\<close>

fun run_seq :: "'o node list \<Rightarrow> pydict \<Rightarrow> ('o, pydict) action" where
  "run_seq [] state w = (Inr state, w)"
| "run_seq (f # fs) state w =
     (case f state w of
        (Inl e, w') \<Rightarrow> (Inl e, w')
      | (Inr upd, w') \<Rightarrow> run_seq fs (apply_update state upd) w')"

text \<open>A graph is a chain over its node names when its edges are the successive pairs
  of the path from the start through the names to the end.\<close>

definition is_chain :: "'o state_graph \<Rightarrow> string list \<Rightarrow> bool" where
  "is_chain g names =
     (map fst (graph_nodes g) = names \<and> distinct names \<and> START \<notin> set names \<and>
      END \<notin> set names \<and> graph_edges g = chain (START # names @ [END]))"

text \<open>What the state holds under a key: the keys of the dictionary stored there (none
  when the key is absent or holds something else), and whether a dictionary is stored
  there.\<close>

definition keys_at :: "pydict \<Rightarrow> string \<Rightarrow> string set" where
  "keys_at state k = (case map_of state k of Some (PDict d) \<Rightarrow> set (map fst d) | _ \<Rightarrow> {})"

definition is_dict_at :: "pydict \<Rightarrow> string \<Rightarrow> bool" where
  "is_dict_at state k = (case map_of state k of Some (PDict d) \<Rightarrow> True | _ \<Rightarrow> False)"

text \<open>The shape of the update an expert returns, and of the one a summarizer returns.\<close>

definition expert_update :: "pydict \<Rightarrow> string \<Rightarrow> string \<Rightarrow> bool" where
  "expert_update upd gk name =
     (\<exists>v d. upd = [(gk, PDict [(name, v)]), (''search_results'', PDict d)])"

definition summary_update :: "pydict \<Rightarrow> string \<Rightarrow> bool" where
  "summary_update upd display = (\<exists>v. upd = [(''group_summaries'', PDict [(display, v)])])"

text \<open>A node that always returns an update of an expert named \<open>name\<close> in group \<open>gk\<close>.\<close>

definition is_expert :: "string \<Rightarrow> 'o node \<Rightarrow> string \<Rightarrow> bool" where
  "is_expert gk f name = (\<forall>st w. \<exists>upd w'. f st w = (Inr upd, w') \<and> expert_update upd gk name)"

text \<open>What a group task contributes when it is run on \<open>st\<close>: the entries of its experts
  under the group key, its summary under \<open>group_summaries\<close>, and every other field of
  the schema as it found it.\<close>

definition group_effect :: "string \<Rightarrow> string list \<Rightarrow> string \<Rightarrow> pydict \<Rightarrow> pydict \<Rightarrow> bool" where
  "group_effect gk names display st out =
     (distinct (map fst out) \<and>
      is_dict_at out gk \<and> keys_at out gk = keys_at st gk \<union> set names \<and>
      is_dict_at out ''group_summaries'' \<and>
      keys_at out ''group_summaries'' = keys_at st ''group_summaries'' \<union> {display} \<and>
      (\<forall>k. k \<noteq> gk \<longrightarrow> k \<noteq> ''search_results'' \<longrightarrow> k \<noteq> ''group_summaries'' \<longrightarrow>
         map_of out k = (if k \<in> set AgentState then map_of st k else None)))"

text \<open>A node that always returns the update of a summarizer with that display name.\<close>

definition is_summarizer :: "'o node \<Rightarrow> string \<Rightarrow> bool" where
  "is_summarizer f display = (\<forall>st w. \<exists>upd w'. f st w = (Inr upd, w') \<and> summary_update upd display)"

text \<open>A group graph of five experts of group \<open>gk\<close> with the names \<open>names\<close>.\<close>

definition is_group_graph :: "'o state_graph \<Rightarrow> string \<Rightarrow> string list \<Rightarrow> string \<Rightarrow> bool" where
  "is_group_graph g gk names display =
     (\<forall>st w. distinct (map fst st) \<longrightarrow>
        (\<exists>out w'. invoke_graph g st w = (Inr out, w') \<and> group_effect gk names display st out))"







section \<open>Concrete collaborators\<close>

text \<open>Three sets of collaborators on which the properties below are evaluated: a process
  without an API key, a machine whose disk is full, and one where every call succeeds.
  The state of the outside is not used by any of them.\<close>

definition no_key_env :: "unit collaborators" where
  "no_key_env =
     \<lparr>getenv = (\<lambda>out name. None),
      llm_invoke = (\<lambda>out l msgs. (Inr '''', out)),
      simple_search = (\<lambda>out query. (Inr [], out)),
      mkdir = (\<lambda>out path. (Inr (), out)),
      write_text = (\<lambda>out path text. (Inr (), out)),
      json_loads = (\<lambda>s. Inl (PyException ''JSONDecodeError'' ''Expecting value'')),
      str_other = (\<lambda>v. ''''),
      upper = (\<lambda>s. s),
      persona = (\<lambda>name. '''')\<rparr>"

definition full_disk_env :: "unit collaborators" where
  "full_disk_env =
     \<lparr>getenv = (\<lambda>out name. Some ''sk-test''),
      llm_invoke = (\<lambda>out l msgs. (Inr ''{\"queries\": []}'', out)),
      simple_search = (\<lambda>out query. (Inr [], out)),
      mkdir = (\<lambda>out path. (Inr (), out)),
      write_text = (\<lambda>out path text.
                      (Inl (PyException ''OSError'' ''No space left on device''), out)),
      json_loads = (\<lambda>s. if s = ''{\"queries\": []}'' then Inr (PDict [(''queries'', PList [])])
                        else Inl (PyException ''JSONDecodeError'' ''Expecting value'')),
      str_other = (\<lambda>v. ''''),
      upper = (\<lambda>s. s),
      persona = (\<lambda>name. '''')\<rparr>"

definition canned_env :: "unit collaborators" where
  "canned_env =
     \<lparr>getenv = (\<lambda>out name. Some ''sk-test''),
      llm_invoke = (\<lambda>out l msgs. (Inr ''{\"queries\": []}'', out)),
      simple_search = (\<lambda>out query. (Inr [], out)),
      mkdir = (\<lambda>out path. (Inr (), out)),
      write_text = (\<lambda>out path text. (Inr (), out)),
      json_loads = (\<lambda>s. if s = ''{\"queries\": []}'' then Inr (PDict [(''queries'', PList [])])
                        else Inl (PyException ''JSONDecodeError'' ''Expecting value'')),
      str_other = (\<lambda>v. ''''),
      upper = (\<lambda>s. s),
      persona = (\<lambda>name. '''')\<rparr>"

text \<open>A model that always answers with six queries inside a tagged fence, and a
  \<^verbatim>\<open>json.loads\<close> that knows that text. The state of the outside counts the calls.\<close>

definition six_queries_json :: string where
  "six_queries_json = ''{\"queries\": [\"a\", \"b\", \"c\", \"d\", \"e\", \"f\"]}''"

definition six_queries_env :: "nat collaborators" where
  "six_queries_env =
     \<lparr>getenv = (\<lambda>out name. Some ''sk-test''),
      llm_invoke = (\<lambda>out l msgs.
         (Inr (''Here you go:\<newline>```json\<newline>'' @ six_queries_json @ ''\<newline>```\<newline>''), out + 1)),
      simple_search = (\<lambda>out query. (Inr [], out + 1)),
      mkdir = (\<lambda>out path. (Inr (), out)),
      write_text = (\<lambda>out path text. (Inr (), out)),
      json_loads = (\<lambda>s. if s = six_queries_json
                        then Inr (PDict [(''queries'', PList (map PStr [''a'', ''b'', ''c'', ''d'', ''e'', ''f'']))])
                        else Inl (PyException ''JSONDecodeError'' ''Expecting value'')),
      str_other = (\<lambda>v. ''''),
      upper = (\<lambda>s. s),
      persona = (\<lambda>name. '''')\<rparr>"

definition start_world :: "unit world" where
  "start_world = \<lparr>outside = (), calls = []\<rparr>"

definition counting_world :: "nat \<Rightarrow> nat world" where
  "counting_world n = \<lparr>outside = n, calls = []\<rparr>"

text \<open>A group of two experts.\<close>

definition two_expert_graph :: "unit state_graph" where
  "two_expert_graph =
     create_expert_group_graph ''market_analysis''
       [expert_analysis no_key_env '''' ''market_analyst'' ''group_1'' ''question_1'',
        expert_analysis no_key_env '''' ''technical_analyst'' ''group_1'' ''question_1'']
       (summarize_group no_key_env ''Market Analysis'' [''market_analyst'', ''technical_analyst'']
          ''group_1'' ''question_1'')"

lemmas agent_defs =
  expert_analysis_def try_except_def expert_body_def dict_get_def expert_failure_def
  expert_success_def save_expert_analysis_def call_mkdir_def call_write_def call_search_def
  expert_steps_def bind_def ret_def get_model_def generate_search_queries_def call_invoke_def
  extract_queries_def parse_queries_def extract_json_str_def py_in_def bind_r_def py_get_def
  perform_searches_def py_iter_def analyze_results_def lift_r_def Let_def
  query_messages_def analysis_messages_def

section \<open>Auxiliary facts\<close>


lemma first_copy_filter:
  "first_copy st ks =
     (case filter py_truthy (map (\<lambda>i. dict_get st (''question_'' @ str_of_nat i) (PStr '''')) ks) of
        [] \<Rightarrow> None | v # _ \<Rightarrow> Some v)"
  by (induction ks) (auto simp: dict_get_def split: option.splits)

lemma upt_1_6: "[1..<6] = [1, 2, 3, 4, 5::nat]" "[Suc 0..<6] = [1, 2, 3, 4, 5::nat]"
  by (simp_all add: upt_rec)

lemma str_of_small: "str_of_nat 1 = ''1''" "str_of_nat 2 = ''2''" "str_of_nat 3 = ''3''"
  "str_of_nat 4 = ''4''" "str_of_nat 5 = ''5''" "str_of_nat 0 = ''0''"
  "str_of_nat (Suc 0) = ''1''"
  by code_simp+

lemma resolve_question_first_populated:
  "resolve_question st =
     (case filter py_truthy (map (\<lambda>k. dict_get st k (PStr ''''))
             [''question'', ''question_1'', ''question_2'', ''question_3'', ''question_4'',
              ''question_5'']) of
        [] \<Rightarrow> PStr ''No question provided''
      | v # _ \<Rightarrow> v)"
  by (simp add: resolve_question_def first_copy_filter upt_1_6 str_of_small Let_def
      split: list.splits)

lemma get_model_world: "get_model env w = (r, w') \<Longrightarrow> w' = w"
  by (auto simp: get_model_def split: option.splits if_splits)

lemma find_sep_skip:
  "c \<notin> set b \<Longrightarrow>
   find_sep (c # sep) (b @ t) =
     (case find_sep (c # sep) t of None \<Rightarrow> None | Some (a, r) \<Rightarrow> Some (b @ a, r))"
  by (induction b) (auto split: option.splits)

lemma find_sep_here: "find_sep sep (sep @ t) = Some ([], t)"
proof (cases "sep @ t")
  case Nil
  then show ?thesis by simp
next
  case (Cons a l)
  then have "prefix sep (a # l)" by (metis prefixI)
  then have "find_sep sep (a # l) = Some ([], drop (length sep) (a # l))" by simp
  with Cons show ?thesis by (metis append_eq_conv_conj)
qed

lemma find_sep_absent: "c \<notin> set b \<Longrightarrow> find_sep (c # sep) b = None"
  using find_sep_skip [of c b sep "[]"] by simp

lemma py_split_found:
  "sep \<noteq> [] \<Longrightarrow> find_sep sep s = Some (a, b) \<Longrightarrow> py_split sep s = a # py_split sep b"
  by (subst py_split.simps) simp

lemma py_split_none:
  "find_sep sep s = None \<Longrightarrow> py_split sep s = [s]"
  by (subst py_split.simps) simp

lemma py_split_nonempty: "py_split sep s \<noteq> []"
  by (subst py_split.simps) (auto split: option.splits)

lemma py_split_hd:
  "sep \<noteq> [] \<Longrightarrow>
   hd (py_split sep s) = (case find_sep sep s of None \<Rightarrow> s | Some (a, b) \<Rightarrow> a)"
  by (subst py_split.simps) (auto split: option.splits)

lemma py_index_0: "py_index xs 0 = (if xs = [] then Inl (PyException ''IndexError'' ''list index out of range'') else Inr (hd xs))"
  by (cases xs) (auto simp: py_index_def)

lemma py_index_split_0: "sep \<noteq> [] \<Longrightarrow> py_index (py_split sep s) 0 = Inr (case find_sep sep s of None \<Rightarrow> s | Some (a, b) \<Rightarrow> a)"
  by (simp add: py_index_0 py_split_nonempty py_split_hd)

lemma py_index_split_1:
  "sep \<noteq> [] \<Longrightarrow> find_sep sep s = Some (a, b) \<Longrightarrow>
   py_index (py_split sep s) (Suc 0) =
     Inr (case find_sep sep b of None \<Rightarrow> b | Some (a', b') \<Rightarrow> a')"
proof -
  assume sep: "sep \<noteq> []" and f: "find_sep sep s = Some (a, b)"
  then have "py_split sep s = a # py_split sep b" by (rule py_split_found)
  moreover have "py_split sep b \<noteq> []" by (rule py_split_nonempty)
  ultimately have "py_index (py_split sep s) (Suc 0) = Inr (hd (py_split sep b))"
    by (cases "py_split sep b") (auto simp: py_index_def)
  with sep show ?thesis by (simp add: py_split_hd)
qed

text \<open>The extraction always finds a text to parse.\<close>

lemma extract_json_str_total: "\<exists>js. extract_json_str content = Inr js"
proof -
  have a: "\<And>sep s. sep \<noteq> [] \<Longrightarrow> py_in sep s \<Longrightarrow> \<exists>x. py_index (py_split sep s) 1 = Inr x"
    by (auto simp: py_in_def py_index_split_1)
  have b: "\<And>sep s. sep \<noteq> [] \<Longrightarrow> \<exists>x. py_index (py_split sep s) 0 = Inr x"
    by (simp add: py_index_split_0)
  show ?thesis
  proof (cases "py_in ''```json'' content")
    case True
    from a [OF _ True] obtain x where x: "py_index (py_split ''```json'' content) 1 = Inr x" by auto
    from b [of "''```''" x] obtain y where "py_index (py_split ''```'' x) 0 = Inr y" by auto
    with True x show ?thesis by (simp add: extract_json_str_def bind_r_def)
  next
    case False
    show ?thesis
    proof (cases "py_in ''```'' content")
      case True
      from a [OF _ True] obtain x where x: "py_index (py_split ''```'' content) 1 = Inr x" by auto
      from b [of "''```''" x] obtain y where "py_index (py_split ''```'' x) 0 = Inr y" by auto
      with True False x show ?thesis by (simp add: extract_json_str_def bind_r_def)
    next
      case F2: False
      with False show ?thesis by (simp add: extract_json_str_def)
    qed
  qed
qed

lemma find_sep_occurs: "find_sep sep (a @ sep @ b) \<noteq> None"
proof (induction a)
  case Nil
  show ?case by (simp add: find_sep_here)
next
  case (Cons c a)
  then show ?case by (auto split: option.splits)
qed

lemma py_in_iff: "py_in sep s \<longleftrightarrow> (\<exists>a b. s = a @ sep @ b)"
proof
  assume "py_in sep s"
  then obtain a b where "find_sep sep s = Some (a, b)" by (auto simp: py_in_def)
  then have "s = a @ sep @ b" by (rule find_sep_Some)
  then show "\<exists>a b. s = a @ sep @ b" by blast
next
  assume "\<exists>a b. s = a @ sep @ b"
  then obtain a b where "s = a @ sep @ b" by blast
  with find_sep_occurs [of sep a b] show "py_in sep s" by (simp add: py_in_def)
qed

lemma py_in_json_fence: "py_in ''```json'' s \<Longrightarrow> py_in ''```'' s"
proof -
  assume "py_in ''```json'' s"
  then obtain a b where "s = a @ ''```json'' @ b" by (auto simp: py_in_iff)
  then have "s = a @ ''```'' @ (''json'' @ b)" by simp
  then show ?thesis unfolding py_in_iff by blast
qed

lemma extract_unfenced:
  "\<not> py_in ''```'' body \<Longrightarrow> extract_json_str body = Inr body"
  using py_in_json_fence [of body] by (auto simp: extract_json_str_def)

lemma extract_fenced_json:
  assumes "backtick_free before" "backtick_free body" "\<not> prefix ''`'' after"
  shows "extract_json_str (before @ ''```json'' @ body @ ''```'' @ after) = Inr (py_strip body)"
proof -
  let ?J = "''```json''" and ?F = "''```''"
  let ?rest = "body @ ?F @ after"
  let ?content = "before @ ?J @ ?rest"
  from assms have bf: "CHR 0x60 \<notin> set before" and bb: "CHR 0x60 \<notin> set body"
    by (simp_all add: backtick_free_def)
  have f1: "find_sep ?J ?content = Some (before, ?rest)"
    using find_sep_skip [OF bf, of "''``json''" "?J @ ?rest"] find_sep_here [of ?J ?rest]
    by simp
  then have inj: "py_in ?J ?content" by (simp add: py_in_def)
  have i1: "py_index (py_split ?J ?content) (Suc 0) =
      Inr (case find_sep ?J ?rest of None \<Rightarrow> ?rest | Some (a', b') \<Rightarrow> a')"
    by (rule py_index_split_1 [OF _ f1]) simp
  have f2: "find_sep ?J ?rest =
      (case find_sep ?J (?F @ after) of None \<Rightarrow> None | Some (a, r) \<Rightarrow> Some (body @ a, r))"
    using find_sep_skip [OF bb, of "''``json''" "?F @ after"] by simp
  have f3: "find_sep ?F ?rest = Some (body, after)"
    using find_sep_skip [OF bb, of "''``''" "?F @ after"] find_sep_here [of ?F after] by simp
  have key: "py_index (py_split ?F (case find_sep ?J ?rest of None \<Rightarrow> ?rest | Some (a', b') \<Rightarrow> a')) 0
      = Inr body"
  proof (cases "find_sep ?J (?F @ after)")
    case None
    with f2 f3 show ?thesis by (simp add: py_index_split_0)
  next
    case (Some ar)
    obtain a r where ar: "ar = (a, r)" by (cases ar)
    from Some ar have "find_sep ?J (?F @ after) = Some (a, r)" by (simp only:)
    then have eq: "?F @ after = a @ ?J @ r" by (rule find_sep_Some)
    have "find_sep ?F (body @ a) = (if a = [] then None else Some (body, drop 3 a))"
    proof (cases "a = []")
      case True
      then show ?thesis using find_sep_absent [OF bb, of "''``''"] by simp
    next
      case False
      from eq assms(3) False obtain a' where a': "a = ?F @ a'"
        by (cases a; cases "tl a"; cases "tl (tl a)") (auto simp: prefix_def)
      show ?thesis
        using find_sep_skip [OF bb, of "''``''" "?F @ a'"] find_sep_here [of ?F a'] False a'
        by simp
    qed
    with Some ar f2 show ?thesis by (simp add: py_index_split_0)
  qed
  show ?thesis
    using inj i1 key by (simp add: extract_json_str_def bind_r_def)
qed

lemma extract_fenced_plain:
  assumes "backtick_free before" "backtick_free body"
    and "\<not> py_in ''```json'' (before @ ''```'' @ body @ ''```'' @ after)"
  shows "extract_json_str (before @ ''```'' @ body @ ''```'' @ after) = Inr (py_strip body)"
proof -
  let ?F = "''```''"
  let ?rest = "body @ ?F @ after"
  let ?content = "before @ ?F @ ?rest"
  from assms have bf: "CHR 0x60 \<notin> set before" and bb: "CHR 0x60 \<notin> set body"
    by (simp_all add: backtick_free_def)
  have f1: "find_sep ?F ?content = Some (before, ?rest)"
    using find_sep_skip [OF bf, of "''``''" "?F @ ?rest"] find_sep_here [of ?F ?rest] by simp
  then have inf: "py_in ?F ?content" by (simp add: py_in_def)
  have f3: "find_sep ?F ?rest = Some (body, after)"
    using find_sep_skip [OF bb, of "''``''" "?F @ after"] find_sep_here [of ?F after] by simp
  have i1: "py_index (py_split ?F ?content) (Suc 0) = Inr body"
    using py_index_split_1 [OF _ f1] f3 by simp
  have i0: "py_index (py_split ?F body) 0 = Inr body"
    using find_sep_absent [OF bb, of "''``''"] by (simp add: py_index_split_0)
  show ?thesis
    using assms(3) inf i1 i0 by (simp add: extract_json_str_def bind_r_def)
qed

lemma extract_well_formed:
  assumes "well_formed_response r"
  shows "extract_json_str (render_response r) = Inr (json_text r)"
proof (cases r)
  case (Unfenced body)
  with assms have "\<not> py_in ''```'' body" by simp
  then show ?thesis
    unfolding Unfenced render_response.simps json_text.simps by (rule extract_unfenced)
next
  case (FencedJson before body after)
  with assms have "backtick_free before" "backtick_free body" "\<not> prefix ''`'' after"
    by simp_all
  then show ?thesis
    unfolding FencedJson render_response.simps json_text.simps by (rule extract_fenced_json)
next
  case (FencedPlain before body after)
  with assms have "backtick_free before" "backtick_free body"
    "\<not> py_in ''```json'' (before @ ''```'' @ body @ ''```'' @ after)"
    by simp_all
  then show ?thesis
    unfolding FencedPlain render_response.simps json_text.simps by (rule extract_fenced_plain)
qed

lemma generate_search_queries_result:
  "fst (llm_invoke env (outside w) l (query_messages (str_other env) sp q name)) = Inr content \<Longrightarrow>
   fst (generate_search_queries env l sp q name w) = Inr (extract_queries (json_loads env) content)"
  by (cases "llm_invoke env (outside w) l (query_messages (str_other env) sp q name)")
     (simp add: generate_search_queries_def bind_def call_invoke_def ret_def)

lemma fallback_at_most_five: "length (fallback_queries content) \<le> 5"
  by (simp add: fallback_queries_def)

lemma graph_edges_add_node [simp]: "graph_edges (add_node n f g) = graph_edges g"
  by (simp add: add_node_def)

lemma graph_nodes_add_node [simp]: "graph_nodes (add_node n f g) = graph_nodes g @ [(n, f)]"
  by (simp add: add_node_def)

lemma graph_edges_add_edge [simp]: "graph_edges (add_edge a b g) = graph_edges g @ [(a, b)]"
  by (simp add: add_edge_def)

lemma graph_nodes_add_edge [simp]: "graph_nodes (add_edge a b g) = graph_nodes g"
  by (simp add: add_edge_def)

lemma schema_add [simp]:
  "input_schema (add_node n f g) = input_schema g" "output_schema (add_node n f g) = output_schema g"
  "input_schema (add_edge a b g) = input_schema g" "output_schema (add_edge a b g) = output_schema g"
  by (simp_all add: add_node_def add_edge_def)

lemma fold_add_edge:
  "graph_edges (fold (\<lambda>i. add_edge (f i) (h i)) xs g) = graph_edges g @ map (\<lambda>i. (f i, h i)) xs \<and>
   graph_nodes (fold (\<lambda>i. add_edge (f i) (h i)) xs g) = graph_nodes g \<and>
   input_schema (fold (\<lambda>i. add_edge (f i) (h i)) xs g) = input_schema g \<and>
   output_schema (fold (\<lambda>i. add_edge (f i) (h i)) xs g) = output_schema g"
  by (induction xs arbitrary: g) simp_all

lemma fold_add_node:
  "graph_nodes (fold (\<lambda>(i, n). add_node (f i) n) xs g) = graph_nodes g @ map (\<lambda>(i, n). (f i, n)) xs \<and>
   graph_edges (fold (\<lambda>(i, n). add_node (f i) n) xs g) = graph_edges g \<and>
   input_schema (fold (\<lambda>(i, n). add_node (f i) n) xs g) = input_schema g \<and>
   output_schema (fold (\<lambda>(i, n). add_node (f i) n) xs g) = output_schema g"
  by (induction xs arbitrary: g) (simp_all add: case_prod_beta)

lemma map_enumerate_nth:
  "length names = length fs \<Longrightarrow>
   map (\<lambda>(i, n). (names ! i, n)) (enumerate 0 fs) = zip names fs"
  by (rule nth_equalityI) (simp_all add: nth_enumerate_eq)

lemma zip_successive:
  "zip xs (tl xs) = map (\<lambda>i. (xs ! i, xs ! Suc i)) [0..<length xs - Suc 0]"
  by (rule nth_equalityI) (simp_all add: nth_tl)

lemma chain_zip:
  "names \<noteq> [] \<Longrightarrow>
   zip (s # names @ [t, e]) (names @ [t, e]) =
     (s, hd names) # zip names (tl names) @ [(last names, t), (t, e)]"
proof (induction names arbitrary: s)
  case Nil
  then show ?case by simp
next
  case (Cons n names)
  show ?case
  proof (cases "names = []")
    case True
    then show ?thesis by simp
  next
    case False
    from Cons.IH [OF False, of n] False show ?thesis by (cases names) simp_all
  qed
qed

lemma chain_path:
  "names \<noteq> [] \<Longrightarrow>
   chain (s # names @ [t, e]) =
     (s, names ! 0) # map (\<lambda>i. (names ! i, names ! (i + 1))) [0..<length names - 1]
       @ [(last names, t), (t, e)]"
  by (simp add: chain_def chain_zip zip_successive hd_conv_nth)

lemma length_expert_node_names [simp]: "length (expert_node_names n) = n"
  by (simp add: expert_node_names_def)

lemma expert_node_names_Nil [simp]: "expert_node_names n = [] \<longleftrightarrow> n = 0"
  by (simp add: expert_node_names_def)

lemma group_graph_edges:
  "graph_edges (create_expert_group_graph group_name expert_nodes summarizer_node) =
     chain (START # expert_node_names (length expert_nodes) @ [group_name @ ''_summarizer'', END])"
proof (cases "expert_nodes = []")
  case True
  then show ?thesis
    by (simp add: create_expert_group_graph_def Let_def StateGraph_def chain_def
        expert_node_names_def)
next
  case False
  then have ne: "expert_node_names (length expert_nodes) \<noteq> []"
    by simp
  show ?thesis
    unfolding chain_path [OF ne]
    using ne by (simp add: create_expert_group_graph_def Let_def fold_add_edge fold_add_node
        StateGraph_def)
qed

lemma group_graph_nodes:
  "graph_nodes (create_expert_group_graph group_name expert_nodes summarizer_node) =
     zip (expert_node_names (length expert_nodes)) expert_nodes
       @ [(group_name @ ''_summarizer'', summarizer_node)]"
  by (simp add: create_expert_group_graph_def Let_def fold_add_edge fold_add_node
      StateGraph_def map_enumerate_nth)

lemma group_graph_schema:
  "input_schema (create_expert_group_graph group_name expert_nodes summarizer_node) = AgentState"
  "output_schema (create_expert_group_graph group_name expert_nodes summarizer_node) = AgentState"
  by (simp_all add: create_expert_group_graph_def Let_def fold_add_edge fold_add_node
      StateGraph_def)

lemma str_of_nat_small: "n < 10 \<Longrightarrow> str_of_nat n = [char_of (48 + n)]"
  by (subst str_of_nat.simps) simp

lemma str_of_nat_large:
  "\<not> n < 10 \<Longrightarrow> str_of_nat n = str_of_nat (n div 10) @ [char_of (48 + n mod 10)]"
  by (subst str_of_nat.simps) simp

lemma str_of_nat_nonempty [simp]: "str_of_nat n \<noteq> []"
  by (cases "n < 10") (simp_all add: str_of_nat_small str_of_nat_large)

lemma str_of_nat_nonempty' [simp]: "[] \<noteq> str_of_nat n"
  using str_of_nat_nonempty [of n] by (simp del: str_of_nat_nonempty)

lemma last_str_of_nat: "last (str_of_nat n) = char_of (48 + n mod 10)"
  by (cases "n < 10") (simp_all add: str_of_nat_small str_of_nat_large)

lemma digit_char_inj:
  assumes "a < 10" "b < 10" "(char_of (48 + a) :: char) = char_of (48 + b)"
  shows "a = (b::nat)"
proof -
  from assms(3) have "(of_char (char_of (48 + a) :: char) :: nat) = of_char (char_of (48 + b) :: char)"
    by simp
  with assms(1,2) show ?thesis by (simp add: of_char_of)
qed

lemma str_of_nat_inj: "str_of_nat n = str_of_nat m \<Longrightarrow> n = m"
proof (induction n arbitrary: m rule: str_of_nat.induct)
  case (1 n)
  show ?case
  proof (cases "n < 10")
    case True
    with "1.prems" have m: "m < 10"
      by (cases "m < 10") (auto simp: str_of_nat_small str_of_nat_large)
    with True "1.prems" show ?thesis
      by (auto simp: str_of_nat_small dest: digit_char_inj)
  next
    case False
    with "1.prems" have m: "\<not> m < 10"
      by (cases "m < 10") (auto simp: str_of_nat_small str_of_nat_large)
    with False "1.prems" have a: "str_of_nat (n div 10) = str_of_nat (m div 10)"
      and b: "(char_of (48 + n mod 10) :: char) = char_of (48 + m mod 10)"
      by (simp_all add: str_of_nat_large)
    from "1.IH" [OF False a] have "n div 10 = m div 10" .
    moreover from b have "n mod 10 = m mod 10" by (rule digit_char_inj [rotated 2]) simp_all
    ultimately show ?thesis by (metis div_mult_mod_eq)
  qed
qed

lemma distinct_expert_node_names: "distinct (expert_node_names n)"
  by (auto simp: expert_node_names_def distinct_map inj_on_def dest: str_of_nat_inj)

lemma digit_not_letter: "(char_of (48 + (k::nat) mod 10) :: char) \<noteq> CHR ''r''"
  "(char_of (48 + (k::nat) mod 10) :: char) \<noteq> CHR ''_''"
proof -
  have v: "(of_char (char_of (48 + k mod 10) :: char) :: nat) = 48 + k mod 10"
    by (simp add: of_char_of)
  have "k mod 10 < 10" by simp
  with v have lt: "(of_char (char_of (48 + k mod 10) :: char) :: nat) < 58" by linarith
  show "(char_of (48 + k mod 10) :: char) \<noteq> CHR ''r''"
  proof
    assume "(char_of (48 + k mod 10) :: char) = CHR ''r''"
    with lt have "(of_char (CHR ''r'') :: nat) < 58" by simp
    then show False by simp
  qed
  show "(char_of (48 + k mod 10) :: char) \<noteq> CHR ''_''"
  proof
    assume "(char_of (48 + k mod 10) :: char) = CHR ''_''"
    with lt have "(of_char (CHR ''_'') :: nat) < 58" by simp
    then show False by simp
  qed
qed

lemma expert_name_last: "x \<in> set (expert_node_names n) \<Longrightarrow> last x \<noteq> CHR ''r'' \<and> last x \<noteq> CHR ''_''"
  by (auto simp: expert_node_names_def last_str_of_nat digit_not_letter)

lemma summarizer_not_expert: "group_name @ ''_summarizer'' \<notin> set (expert_node_names n)"
  using expert_name_last [of "group_name @ ''_summarizer''" n] by auto

lemma START_not_expert: "START \<notin> set (expert_node_names n)"
  using expert_name_last [of START n] by (auto simp: START_def)

lemma END_not_expert: "END \<notin> set (expert_node_names n)"
  using expert_name_last [of END n] by (auto simp: END_def)

lemma START_not_summarizer: "START \<noteq> group_name @ ''_summarizer''"
proof
  assume "START = group_name @ ''_summarizer''"
  then have "last START = last (group_name @ ''_summarizer'')" by simp
  then show False by (simp add: START_def)
qed

lemma END_not_summarizer: "END \<noteq> group_name @ ''_summarizer''"
proof
  assume "END = group_name @ ''_summarizer''"
  then have "last END = last (group_name @ ''_summarizer'')" by simp
  then show False by (simp add: END_def)
qed

lemma filter_zip_distinct:
  "distinct ys \<Longrightarrow> k < length ys \<Longrightarrow> length ys \<le> length xs \<Longrightarrow>
   map fst (filter (\<lambda>(a, b). b = ys ! k) (zip xs ys)) = [xs ! k]"
proof (induction ys arbitrary: xs k)
  case Nil
  then show ?case by simp
next
  case (Cons y ys)
  then obtain x xs' where xs: "xs = x # xs'" by (cases xs) auto
  show ?case
  proof (cases k)
    case 0
    have "filter (\<lambda>(a, b). b = y) (zip xs' ys) = []"
      using Cons.prems(1) by (auto simp: filter_empty_conv dest: set_zip_rightD)
    with 0 xs show ?thesis by simp
  next
    case (Suc j)
    with Cons.prems have "ys ! j \<noteq> y" by auto
    with Suc xs Cons.IH [of j xs'] Cons.prems show ?thesis by simp
  qed
qed

lemma preds_chain:
  assumes "is_chain g names" "k < length names"
  shows "preds g (names ! k) = [(START # names) ! k]"
proof -
  from assms(1) have d: "distinct (names @ [END])" and e: "graph_edges g = zip (START # names @ [END]) (names @ [END])"
    by (simp_all add: is_chain_def chain_def)
  from assms(2) have n: "(names @ [END]) ! k = names ! k" by (simp add: nth_append)
  from assms(2) have m: "(START # names @ [END]) ! k = (START # names) ! k"
    by (cases k) (simp_all add: nth_append)
  from filter_zip_distinct [OF d, of k "START # names @ [END]"] assms(2)
  show ?thesis by (simp add: preds_def e n m)
qed

lemma ready_chain:
  assumes "is_chain g names" "k < length names"
  shows "ready g (rev (take k names)) (names ! k)"
proof -
  from assms have d: "distinct names" by (simp add: is_chain_def)
  with assms(2) have a: "names ! k \<notin> set (take k names)"
    by (auto simp: in_set_conv_nth distinct_conv_nth)
  have b: "(START # names) ! k = START \<or> (START # names) ! k \<in> set (take k names)"
  proof (cases k)
    case 0
    then show ?thesis by simp
  next
    case (Suc j)
    with assms(2) have "names ! j \<in> set (take k names)"
      by (auto simp: in_set_conv_nth intro!: exI [of _ j])
    with Suc show ?thesis by simp
  qed
  from a b show ?thesis by (simp add: ready_def preds_chain [OF assms])
qed

lemma run_nodes_step:
  "find (ready g fin) pending = Some n \<Longrightarrow> map_of (graph_nodes g) n = Some f \<Longrightarrow>
   run_nodes g pending fin st w =
     (case f st w of
        (Inl e, w') \<Rightarrow> (Inl e, w')
      | (Inr upd, w') \<Rightarrow> run_nodes g (remove1 n pending) (n # fin) (apply_update st upd) w')"
  by (subst run_nodes.simps) simp


lemma run_nodes_chain:
  assumes "is_chain g names" "graph_nodes g = zip names fs" "length fs = length names"
  shows "k \<le> length names \<Longrightarrow>
         run_nodes g (drop k names) (rev (take k names)) st w = run_seq (drop k fs) st w"
proof (induction "length names - k" arbitrary: k st w)
  case 0
  then show ?case by (subst run_nodes.simps) (simp add: assms(3))
next
  case (Suc d)
  then have k: "k < length names" by simp
  from assms(1) have dist: "distinct names" by (simp add: is_chain_def)
  have dr: "drop k names = names ! k # drop (Suc k) names"
    using k by (simp add: Cons_nth_drop_Suc)
  have df: "drop k fs = fs ! k # drop (Suc k) fs"
    using k assms(3) by (simp add: Cons_nth_drop_Suc)
  have f: "find (ready g (rev (take k names))) (drop k names) = Some (names ! k)"
    using ready_chain [OF assms(1) k] by (simp add: dr)
  have m: "map_of (graph_nodes g) (names ! k) = Some (fs ! k)"
    unfolding assms(2) using k assms(3) dist by (simp add: map_of_zip_nth)
  have t: "names ! k # rev (take k names) = rev (take (Suc k) names)"
    using k by (simp add: take_Suc_conv_app_nth)
  have ih: "\<And>st w. run_nodes g (drop (Suc k) names) (rev (take (Suc k) names)) st w =
      run_seq (drop (Suc k) fs) st w"
    using Suc.hyps(1) [of "Suc k"] Suc.hyps(2) k by simp
  have r: "remove1 (names ! k) (drop k names) = drop (Suc k) names"
    by (simp add: dr)
  show ?case
    unfolding run_nodes_step [OF f m] r t ih
    by (subst df) simp
qed

lemma run_nodes_chain_all:
  assumes "is_chain g names" "graph_nodes g = zip names fs" "length fs = length names"
  shows "run_nodes g (map fst (graph_nodes g)) [] st w = run_seq fs st w"
  using run_nodes_chain [OF assms, of 0 st w] assms(1) by (simp add: is_chain_def)

lemma group_graph_is_chain:
  "is_chain (create_expert_group_graph group_name expert_nodes summarizer_node)
     (expert_node_names (length expert_nodes) @ [group_name @ ''_summarizer''])"
  by (simp add: is_chain_def group_graph_nodes group_graph_edges distinct_expert_node_names
      summarizer_not_expert START_not_expert END_not_expert START_not_summarizer
      END_not_summarizer)

lemma run_group_graph:
  "run_nodes (create_expert_group_graph group_name expert_nodes summarizer_node)
     (map fst (graph_nodes (create_expert_group_graph group_name expert_nodes summarizer_node)))
     [] st w = run_seq (expert_nodes @ [summarizer_node]) st w"
  by (rule run_nodes_chain_all [OF group_graph_is_chain]) (simp_all add: group_graph_nodes)

lemma chain_index:
  assumes "distinct names" "j < length names" "names ! j \<in> set (take k names)"
  shows "j < k"
proof -
  from assms(3) obtain i where i: "i < k" "i < length names" "names ! i = names ! j"
    by (auto simp: in_set_conv_nth)
  with assms(1,2) have "i = j" by (simp add: nth_eq_iff_index_eq)
  with i show ?thesis by simp
qed

lemma chain_ready_next:
  assumes c: "is_chain g names" and n: "n \<in> set names"
    and fin: "set fin = set (take k names)" "k \<le> length names"
    and r: "ready g fin n"
  shows "k < length names \<and> n = names ! k"
proof -
  from c have d: "distinct names" and s: "START \<notin> set names" by (simp_all add: is_chain_def)
  from n obtain j where j: "j < length names" "n = names ! j" by (auto simp: in_set_conv_nth)
  from r fin j have "names ! j \<notin> set (take k names)" by (simp add: ready_def)
  with j(1) have kj: "k \<le> j" by (cases "j < k") (auto simp: in_set_conv_nth)
  from r j have p: "(START # names) ! j = START \<or> (START # names) ! j \<in> set (take k names)"
    by (simp add: ready_def preds_chain [OF c j(1)] fin)
  have "j \<le> k"
  proof (cases j)
    case 0
    then show ?thesis by simp
  next
    case (Suc i)
    with p j(1) s have "names ! i \<in> set (take k names)" by (auto simp: in_set_conv_nth)
    with d Suc j(1) have "i < k" by (intro chain_index [of names i k]) simp_all
    with Suc show ?thesis by simp
  qed
  with kj j show ?thesis by simp
qed

lemma chain_one_at_a_time:
  assumes c: "is_chain g names"
    and r: "reachable g (initial_config g input w) cfg"
  shows "\<exists>k\<le>length names. set (finished cfg) = set (take k names) \<and>
           (running cfg = [] \<or> (k < length names \<and> (\<exists>snap. running cfg = [(names ! k, snap)])))"
  using r
proof (induction rule: reachable.induct)
  case reach_refl
  show ?case by (rule exI [of _ 0]) (simp add: initial_config_def)
next
  case (reach_step c' c'')
  from reach_step(3) obtain k where k: "k \<le> length names" "set (finished c') = set (take k names)"
    "running c' = [] \<or> (k < length names \<and> (\<exists>snap. running c' = [(names ! k, snap)]))"
    by blast
  from reach_step(2) show ?case
  proof (cases rule: step.cases)
    case (start n)
    from c start(2) have n: "n \<in> set names" by (simp add: is_chain_def)
    from chain_ready_next [OF c n k(2) k(1) start(4)] have nk: "k < length names" "n = names ! k"
      by simp_all
    with start(3) k(3) have "running c' = []" by auto
    with nk start(1) k show ?thesis
      by (intro exI [of _ k]) simp
  next
    case (finish n snapshot f upd w')
    with k(3) have nk: "k < length names" "running c' = [(n, snapshot)]" "n = names ! k"
      by auto
    then have "set (finished c'') = set (take (Suc k) names)"
      using finish(1) k(2) by (simp add: take_Suc_conv_app_nth)
    moreover have "running c'' = []" using finish(1) nk by simp
    ultimately show ?thesis using nk(1) by (intro exI [of _ "Suc k"]) simp
  qed
qed

lemma chain_never_concurrent:
  assumes "is_chain g names" "reachable g (initial_config g input w) cfg"
  shows "length (running cfg) \<le> 1"
  using chain_one_at_a_time [OF assms] by auto

lemma expert_node_names_2: "expert_node_names (Suc (Suc 0)) = [''expert_0'', ''expert_1'']"
  by (simp add: expert_node_names_def str_of_nat_small) code_simp

lemma fold_update_keys:
  "fst ` set (fold (\<lambda>(k, v). AList.update k v) b a) = fst ` set a \<union> fst ` set b"
proof (induction b arbitrary: a)
  case Nil
  show ?case by simp
next
  case (Cons kv b)
  obtain k v where kv: "kv = (k, v)" by (cases kv)
  from Cons [of "AList.update k v a"] kv show ?case by (auto simp: dom_update)
qed

lemma merge_value_dicts:
  "merge_value (PDict a) (PDict b) = PDict (fold (\<lambda>(k, v). AList.update k v) b a)"
  by (simp add: merge_value_def)

lemma merge_value_new_dict:
  "\<exists>d. merge_value old (PDict b) = PDict d \<and>
     set (map fst d) = (case old of PDict a \<Rightarrow> set (map fst a) | _ \<Rightarrow> {}) \<union> set (map fst b)"
  by (cases old) (simp_all add: merge_value_def fold_update_keys)

lemma map_of_merge_entry:
  "map_of (merge_entry (k, v) state) =
     (map_of state)(k \<mapsto> (case map_of state k of None \<Rightarrow> v | Some old \<Rightarrow> merge_value old v))"
  by (simp add: merge_entry_def update_conv')

lemma distinct_merge_entry:
  "distinct (map fst state) \<Longrightarrow> distinct (map fst (merge_entry kv state))"
  by (cases kv) (simp add: merge_entry_def distinct_update)

lemma distinct_apply_update:
  "distinct (map fst state) \<Longrightarrow> distinct (map fst (apply_update state upd))"
  unfolding apply_update_def
  by (induction upd arbitrary: state) (simp_all add: distinct_merge_entry)

lemma map_of_apply_update:
  "distinct (map fst upd) \<Longrightarrow>
   map_of (apply_update state upd) k =
     (case map_of upd k of
        None \<Rightarrow> map_of state k
      | Some v \<Rightarrow> Some (case map_of state k of None \<Rightarrow> v | Some old \<Rightarrow> merge_value old v))"
  unfolding apply_update_def
proof (induction upd arbitrary: state)
  case Nil
  show ?case by simp
next
  case (Cons kv upd)
  obtain k' v' where kv: "kv = (k', v')" by (cases kv)
  from Cons.prems kv have d: "distinct (map fst upd)" and n: "k' \<notin> fst ` set upd" by simp_all
  from n have none: "map_of upd k' = None" by (simp add: map_of_eq_None_iff)
  show ?case
    using Cons.IH [OF d, of "merge_entry (k', v') state"] none
    by (auto simp: kv map_of_merge_entry split: option.splits)
qed

lemma apply_update_untouched:
  "distinct (map fst upd) \<Longrightarrow> map_of upd k = None \<Longrightarrow>
   map_of (apply_update state upd) k = map_of state k"
  by (simp add: map_of_apply_update)

lemma apply_update_dict:
  assumes "distinct (map fst upd)" "map_of upd k = Some (PDict b)"
  shows "is_dict_at (apply_update state upd) k \<and>
         keys_at (apply_update state upd) k = keys_at state k \<union> set (map fst b)"
proof (cases "map_of state k")
  case None
  with assms show ?thesis by (simp add: map_of_apply_update is_dict_at_def keys_at_def)
next
  case (Some old)
  from merge_value_new_dict [of old b] obtain d where
    d: "merge_value old (PDict b) = PDict d"
       "set (map fst d) = (case old of PDict a \<Rightarrow> set (map fst a) | _ \<Rightarrow> {}) \<union> set (map fst b)"
    by blast
  with assms Some show ?thesis
    by (cases old) (simp_all add: map_of_apply_update is_dict_at_def keys_at_def)
qed

lemma apply_update_empty [simp]: "apply_update state [] = state"
  by (simp add: apply_update_def)

lemma map_of_restrict_keys:
  "map_of (restrict_keys ks d) k = (if k \<in> set ks then map_of d k else None)"
  unfolding restrict_keys_def by (induction d) auto

lemma distinct_restrict_keys:
  "distinct (map fst d) \<Longrightarrow> distinct (map fst (restrict_keys ks d))"
  unfolding restrict_keys_def by (simp add: distinct_map_filter)

lemma keys_at_restrict:
  "k \<in> set ks \<Longrightarrow> keys_at (restrict_keys ks d) k = keys_at d k"
  "k \<in> set ks \<Longrightarrow> is_dict_at (restrict_keys ks d) k = is_dict_at d k"
  by (simp_all add: keys_at_def is_dict_at_def map_of_restrict_keys)

lemma view_cong:
  "map_of a k = map_of b k \<Longrightarrow> keys_at a k = keys_at b k \<and> is_dict_at a k = is_dict_at b k"
  by (simp add: keys_at_def is_dict_at_def)

lemma bind_Inr:
  "bind m f w = (Inr u, w') \<Longrightarrow> \<exists>a w1. m w = (Inr a, w1) \<and> f a w1 = (Inr u, w')"
  by (cases "m w") (auto simp: bind_def split: sum.splits)

lemma expert_body_Inr:
  assumes "expert_body env sp name gk qk st w = (Inr u, w')"
  shows "\<exists>analysis queries results. u = expert_success gk name analysis queries results"
proof -
  from assms obtain a w1 where
    "(case a of (queries, search_results, analysis) \<Rightarrow>
        bind (save_expert_analysis env name analysis (dict_get st qk (PStr '''')))
          (\<lambda>_. ret (expert_success gk name analysis queries search_results))) w1 = (Inr u, w')"
    unfolding expert_body_def Let_def by (blast dest: bind_Inr)
  then obtain queries results analysis where
    "bind (save_expert_analysis env name analysis (dict_get st qk (PStr '''')))
          (\<lambda>_. ret (expert_success gk name analysis queries results)) w1 = (Inr u, w')"
    by (cases a) auto
  then obtain w2 where "ret (expert_success gk name analysis queries results) w2 = (Inr u, w')"
    by (blast dest: bind_Inr)
  then show ?thesis by (auto simp: ret_def)
qed

lemma expert_contract:
  assumes "gk \<noteq> ''search_results''"
  shows "\<exists>upd w'. expert_analysis env sp name gk qk st w = (Inr upd, w') \<and> expert_update upd gk name"
proof (cases "expert_body env sp name gk qk st w")
  case (Pair r w')
  show ?thesis
  proof (cases r)
    case (Inl e)
    with Pair assms show ?thesis
      by (simp add: expert_analysis_def try_except_def ret_def expert_failure_def
          expert_update_def)
  next
    case (Inr u)
    with Pair expert_body_Inr [of env sp name gk qk st w u w'] assms show ?thesis
      by (auto simp: expert_analysis_def try_except_def expert_success_def expert_update_def)
  qed
qed

lemma summarize_body_Inr:
  assumes "summarize_body env display names gk qk st w = (Inr u, w')"
  shows "\<exists>summary. u = summary_success display summary"
proof -
  from assms show ?thesis
    unfolding summarize_body_def Let_def
    by (auto dest!: bind_Inr simp: ret_def)
qed

lemma summarizer_contract:
  "\<exists>upd w'. summarize_group env display names gk qk st w = (Inr upd, w') \<and>
     summary_update upd display"
proof (cases "summarize_body env display names gk qk st w")
  case (Pair r w')
  show ?thesis
  proof (cases r)
    case (Inl e)
    with Pair show ?thesis
      by (simp add: summarize_group_def try_except_def ret_def summary_failure_def
          summary_update_def)
  next
    case (Inr u)
    with Pair summarize_body_Inr [of env display names gk qk st w u w'] show ?thesis
      by (auto simp: summarize_group_def try_except_def summary_success_def summary_update_def)
  qed
qed



lemma run_seq_append:
  "run_seq (fs @ gs) st w =
     (case run_seq fs st w of (Inl e, w') \<Rightarrow> (Inl e, w') | (Inr st', w') \<Rightarrow> run_seq gs st' w')"
  by (induction fs arbitrary: st w) (auto split: prod.splits sum.splits)

lemma expert_update_effect:
  assumes "expert_update upd gk name" "gk \<noteq> ''search_results''"
  shows "is_dict_at (apply_update st upd) gk"
    and "keys_at (apply_update st upd) gk = keys_at st gk \<union> {name}"
    and "k \<noteq> gk \<Longrightarrow> k \<noteq> ''search_results'' \<Longrightarrow> map_of (apply_update st upd) k = map_of st k"
proof -
  from assms obtain v d where
    u: "upd = [(gk, PDict [(name, v)]), (''search_results'', PDict d)]"
    by (auto simp: expert_update_def)
  with assms(2) have d: "distinct (map fst upd)" by simp
  from u have m: "map_of upd gk = Some (PDict [(name, v)])" by simp
  from apply_update_dict [OF d m, of st]
  show "is_dict_at (apply_update st upd) gk"
    and "keys_at (apply_update st upd) gk = keys_at st gk \<union> {name}" by simp_all
  assume "k \<noteq> gk" "k \<noteq> ''search_results''"
  with u have "map_of upd k = None" by simp
  with d show "map_of (apply_update st upd) k = map_of st k" by (rule apply_update_untouched)
qed

lemma run_experts:
  assumes "gk \<noteq> ''search_results''"
  shows "list_all2 (is_expert gk) fs names \<Longrightarrow> distinct (map fst st) \<Longrightarrow>
    \<exists>st' w'. run_seq fs st w = (Inr st', w') \<and> distinct (map fst st') \<and>
      keys_at st' gk = keys_at st gk \<union> set names \<and>
      (names \<noteq> [] \<longrightarrow> is_dict_at st' gk) \<and>
      (\<forall>k. k \<noteq> gk \<longrightarrow> k \<noteq> ''search_results'' \<longrightarrow> map_of st' k = map_of st k)"
proof (induction fs names arbitrary: st w rule: list_all2_induct)
  case Nil
  then show ?case by simp
next
  case (Cons f fs name names)
  from Cons.hyps(1) obtain upd w1 where f: "f st w = (Inr upd, w1)" and u: "expert_update upd gk name"
    unfolding is_expert_def by blast
  let ?s1 = "apply_update st upd"
  note e = expert_update_effect [OF u assms, where st = st]
  have d1: "distinct (map fst ?s1)" using Cons.prems by (rule distinct_apply_update)
  from Cons.IH [OF d1, of w1] obtain st' w' where r:
    "run_seq fs ?s1 w1 = (Inr st', w')" "distinct (map fst st')"
    "keys_at st' gk = keys_at ?s1 gk \<union> set names"
    "names \<noteq> [] \<longrightarrow> is_dict_at st' gk"
    "\<forall>k. k \<noteq> gk \<longrightarrow> k \<noteq> ''search_results'' \<longrightarrow> map_of st' k = map_of ?s1 k"
    by blast
  have dict: "is_dict_at st' gk"
  proof (cases "names = []")
    case True
    with Cons.hyps(2) have "fs = []" by simp
    with r(1) e(1) show ?thesis by simp
  next
    case False
    with r(4) show ?thesis by simp
  qed
  have other: "\<forall>k. k \<noteq> gk \<longrightarrow> k \<noteq> ''search_results'' \<longrightarrow> map_of st' k = map_of st k"
    using r(5) e(3) by simp
  from f r(1) have "run_seq (f # fs) st w = (Inr st', w')" by simp
  with r(2,3) e(2) dict other show ?case by auto
qed

lemma summary_update_effect:
  assumes "summary_update upd display"
  shows "is_dict_at (apply_update st upd) ''group_summaries''"
    and "keys_at (apply_update st upd) ''group_summaries'' = keys_at st ''group_summaries'' \<union> {display}"
    and "k \<noteq> ''group_summaries'' \<Longrightarrow> map_of (apply_update st upd) k = map_of st k"
proof -
  from assms obtain v where u: "upd = [(''group_summaries'', PDict [(display, v)])]"
    by (auto simp: summary_update_def)
  then have d: "distinct (map fst upd)" by simp
  from u have m: "map_of upd ''group_summaries'' = Some (PDict [(display, v)])" by simp
  from apply_update_dict [OF d m, of st]
  show "is_dict_at (apply_update st upd) ''group_summaries''"
    and "keys_at (apply_update st upd) ''group_summaries'' = keys_at st ''group_summaries'' \<union> {display}"
    by simp_all
  assume "k \<noteq> ''group_summaries''"
  with u have "map_of upd k = None" by simp
  with d show "map_of (apply_update st upd) k = map_of st k" by (rule apply_update_untouched)
qed

lemma group_contract:
  assumes ex: "list_all2 (is_expert gk) fs names" and ne: "names \<noteq> []"
    and su: "is_summarizer s display"
    and gk: "gk \<in> set AgentState" "gk \<noteq> ''search_results''" "gk \<noteq> ''group_summaries''"
    and d: "distinct (map fst st)"
  shows "\<exists>out w'. invoke_graph (create_expert_group_graph gname fs s) st w = (Inr out, w') \<and>
           group_effect gk names display st out"
proof -
  let ?g = "create_expert_group_graph gname fs s"
  let ?s0 = "restrict_keys AgentState st"
  have d0: "distinct (map fst ?s0)" using d by (rule distinct_restrict_keys)
  from run_experts [OF gk(2) ex d0, of w] ne obtain s5 w5 where r:
    "run_seq fs ?s0 w = (Inr s5, w5)" "distinct (map fst s5)"
    "keys_at s5 gk = keys_at ?s0 gk \<union> set names" "is_dict_at s5 gk"
    "\<forall>k. k \<noteq> gk \<longrightarrow> k \<noteq> ''search_results'' \<longrightarrow> map_of s5 k = map_of ?s0 k"
    by blast
  from su obtain upd w6 where s: "s s5 w5 = (Inr upd, w6)" and u: "summary_update upd display"
    unfolding is_summarizer_def by blast
  let ?s6 = "apply_update s5 upd"
  note e = summary_update_effect [OF u, where st = s5]
  have d6: "distinct (map fst ?s6)" using r(2) by (rule distinct_apply_update)
  have run: "run_seq (fs @ [s]) ?s0 w = (Inr ?s6, w6)"
    using r(1) s by (simp add: run_seq_append)
  let ?out = "restrict_keys AgentState ?s6"
  have inv: "invoke_graph ?g st w = (Inr ?out, w6)"
    by (simp add: invoke_graph_def group_graph_schema run_group_graph run)
  have gs: "''group_summaries'' \<in> set AgentState"
    by (simp add: AgentState_def OutputState_def)
  have a: "map_of ?out gk = map_of s5 gk"
    using gk e(3) [of gk] by (simp add: map_of_restrict_keys)
  have a1: "is_dict_at ?out gk" "keys_at ?out gk = keys_at st gk \<union> set names"
    using view_cong [OF a] r(3,4) gk(1) by (simp_all add: keys_at_restrict)
  have b0: "map_of s5 ''group_summaries'' = map_of ?s0 ''group_summaries''"
    using r(5) gk(3) by simp
  have b1: "is_dict_at ?out ''group_summaries''"
    "keys_at ?out ''group_summaries'' = keys_at st ''group_summaries'' \<union> {display}"
    using e(1,2) view_cong [OF b0] gs by (simp_all add: keys_at_restrict)
  have c: "\<forall>k. k \<noteq> gk \<longrightarrow> k \<noteq> ''search_results'' \<longrightarrow> k \<noteq> ''group_summaries'' \<longrightarrow>
         map_of ?out k = (if k \<in> set AgentState then map_of st k else None)"
    using e(3) r(5) by (simp add: map_of_restrict_keys)
  have "group_effect gk names display st ?out"
    unfolding group_effect_def using d6 a1 b1 c by (simp add: distinct_restrict_keys)
  with inv show ?thesis by blast
qed

lemma created_expert:
  assumes "create_expert_agent env sp name gk = Inr f" "gk \<noteq> ''search_results''"
  shows "is_expert gk f name"
proof -
  from assms(1) obtain qk where "f = expert_analysis env sp name gk qk"
    by (auto simp: create_expert_agent_def bind_r_def split: sum.splits)
  with expert_contract [OF assms(2)] show ?thesis unfolding is_expert_def by blast
qed

lemma created_summarizer:
  assumes "create_group_summarizer env display names gk = Inr f"
  shows "is_summarizer f display"
proof -
  from assms obtain qk where "f = summarize_group env display names gk qk"
    by (auto simp: create_group_summarizer_def bind_r_def split: sum.splits)
  with summarizer_contract show ?thesis unfolding is_summarizer_def by blast
qed

lemma question_key_group [simp]:
  "question_key_of ''group_1'' = Inr ''question_1''"
  "question_key_of ''group_2'' = Inr ''question_2''"
  "question_key_of ''group_3'' = Inr ''question_3''"
  "question_key_of ''group_4'' = Inr ''question_4''"
  "question_key_of ''group_5'' = Inr ''question_5''"
  by (simp_all add: question_key_of_def py_last_char_def bind_r_def)

lemma create_expert_agent_group:
  "gk \<in> {''group_1'', ''group_2'', ''group_3'', ''group_4'', ''group_5''} \<Longrightarrow>
   \<exists>f. create_expert_agent env sp name gk = Inr f \<and> is_expert gk f name"
proof -
  assume g: "gk \<in> {''group_1'', ''group_2'', ''group_3'', ''group_4'', ''group_5''}"
  then obtain qk where "question_key_of gk = Inr qk" by auto
  then have c: "create_expert_agent env sp name gk = Inr (expert_analysis env sp name gk qk)"
    by (simp add: create_expert_agent_def bind_r_def)
  from g have "gk \<noteq> ''search_results''" by auto
  with created_expert [OF c] c show ?thesis by blast
qed

lemma create_group_summarizer_group:
  "gk \<in> {''group_1'', ''group_2'', ''group_3'', ''group_4'', ''group_5''} \<Longrightarrow>
   \<exists>f. create_group_summarizer env display names gk = Inr f \<and> is_summarizer f display"
proof -
  assume g: "gk \<in> {''group_1'', ''group_2'', ''group_3'', ''group_4'', ''group_5''}"
  then obtain qk where "question_key_of gk = Inr qk" by auto
  then have c: "create_group_summarizer env display names gk =
      Inr (summarize_group env display names gk qk)"
    by (simp add: create_group_summarizer_def bind_r_def)
  with created_summarizer [OF c] show ?thesis by blast
qed

lemma market_analysis_group:
  "\<exists>g. market_analysis_group_graph env = Inr g \<and>
     is_group_graph g ''group_1'' market_analysis_expert_names market_analysis_display_name"
proof -
  let ?gk = "''group_1''"
  have m: "?gk \<in> {''group_1'', ''group_2'', ''group_3'', ''group_4'', ''group_5''}" by simp
  obtain f1 where f1: "market_analyst_node env = Inr f1" "is_expert ?gk f1 ''market_analyst''"
    unfolding market_analyst_node_def using create_expert_agent_group [OF m] by blast
  obtain f2 where f2: "technical_analyst_node env = Inr f2" "is_expert ?gk f2 ''technical_analyst''"
    unfolding technical_analyst_node_def using create_expert_agent_group [OF m] by blast
  obtain f3 where f3: "fundamental_analyst_node env = Inr f3" "is_expert ?gk f3 ''fundamental_analyst''"
    unfolding fundamental_analyst_node_def using create_expert_agent_group [OF m] by blast
  obtain f4 where f4: "sentiment_analyst_node env = Inr f4" "is_expert ?gk f4 ''sentiment_analyst''"
    unfolding sentiment_analyst_node_def using create_expert_agent_group [OF m] by blast
  obtain f5 where f5: "economic_indicators_node env = Inr f5" "is_expert ?gk f5 ''economic_indicators_expert''"
    unfolding economic_indicators_node_def using create_expert_agent_group [OF m] by blast
  obtain s where s: "market_analysis_group_summarizer env = Inr s"
      "is_summarizer s market_analysis_display_name"
    unfolding market_analysis_group_summarizer_def
    using create_group_summarizer_group [OF m] by blast
  let ?g = "create_expert_group_graph ''market_analysis'' [f1, f2, f3, f4, f5] s"
  have g: "market_analysis_group_graph env = Inr ?g"
    by (simp add: market_analysis_group_graph_def f1 f2 f3 f4 f5 s bind_r_def)
  have l: "list_all2 (is_expert ?gk) [f1, f2, f3, f4, f5] market_analysis_expert_names"
    by (simp add: market_analysis_expert_names_def f1 f2 f3 f4 f5)
  have "is_group_graph ?g ?gk market_analysis_expert_names market_analysis_display_name"
    unfolding is_group_graph_def
    by (intro allI impI group_contract [OF l _ s(2)])
       (simp_all add: market_analysis_expert_names_def AgentState_def OutputState_def)
  with g show ?thesis by blast
qed

lemma financial_analysis_group:
  "\<exists>g. financial_analysis_group_graph env = Inr g \<and>
     is_group_graph g ''group_2'' financial_analysis_expert_names financial_analysis_display_name"
proof -
  let ?gk = "''group_2''"
  have m: "?gk \<in> {''group_1'', ''group_2'', ''group_3'', ''group_4'', ''group_5''}" by simp
  obtain f1 where f1: "financial_statement_node env = Inr f1" "is_expert ?gk f1 ''financial_statement_analyst''"
    unfolding financial_statement_node_def using create_expert_agent_group [OF m] by blast
  obtain f2 where f2: "financial_ratio_node env = Inr f2" "is_expert ?gk f2 ''financial_ratio_expert''"
    unfolding financial_ratio_node_def using create_expert_agent_group [OF m] by blast
  obtain f3 where f3: "valuation_node env = Inr f3" "is_expert ?gk f3 ''valuation_expert''"
    unfolding valuation_node_def using create_expert_agent_group [OF m] by blast
  obtain f4 where f4: "cash_flow_node env = Inr f4" "is_expert ?gk f4 ''cash_flow_analyst''"
    unfolding cash_flow_node_def using create_expert_agent_group [OF m] by blast
  obtain f5 where f5: "capital_structure_node env = Inr f5" "is_expert ?gk f5 ''capital_structure_expert''"
    unfolding capital_structure_node_def using create_expert_agent_group [OF m] by blast
  obtain s where s: "financial_analysis_group_summarizer env = Inr s"
      "is_summarizer s financial_analysis_display_name"
    unfolding financial_analysis_group_summarizer_def
    using create_group_summarizer_group [OF m] by blast
  let ?g = "create_expert_group_graph ''financial_analysis'' [f1, f2, f3, f4, f5] s"
  have g: "financial_analysis_group_graph env = Inr ?g"
    by (simp add: financial_analysis_group_graph_def f1 f2 f3 f4 f5 s bind_r_def)
  have l: "list_all2 (is_expert ?gk) [f1, f2, f3, f4, f5] financial_analysis_expert_names"
    by (simp add: financial_analysis_expert_names_def f1 f2 f3 f4 f5)
  have "is_group_graph ?g ?gk financial_analysis_expert_names financial_analysis_display_name"
    unfolding is_group_graph_def
    by (intro allI impI group_contract [OF l _ s(2)])
       (simp_all add: financial_analysis_expert_names_def AgentState_def OutputState_def)
  with g show ?thesis by blast
qed

lemma sectoral_analysis_group:
  "\<exists>g. sectoral_analysis_group_graph env = Inr g \<and>
     is_group_graph g ''group_3'' sectoral_analysis_expert_names sectoral_analysis_display_name"
proof -
  let ?gk = "''group_3''"
  have m: "?gk \<in> {''group_1'', ''group_2'', ''group_3'', ''group_4'', ''group_5''}" by simp
  obtain f1 where f1: "banking_finance_node env = Inr f1" "is_expert ?gk f1 ''banking_finance_expert''"
    unfolding banking_finance_node_def using create_expert_agent_group [OF m] by blast
  obtain f2 where f2: "real_estate_node env = Inr f2" "is_expert ?gk f2 ''real_estate_expert''"
    unfolding real_estate_node_def using create_expert_agent_group [OF m] by blast
  obtain f3 where f3: "consumer_goods_node env = Inr f3" "is_expert ?gk f3 ''consumer_goods_expert''"
    unfolding consumer_goods_node_def using create_expert_agent_group [OF m] by blast
  obtain f4 where f4: "industrial_node env = Inr f4" "is_expert ?gk f4 ''industrial_expert''"
    unfolding industrial_node_def using create_expert_agent_group [OF m] by blast
  obtain f5 where f5: "technology_node env = Inr f5" "is_expert ?gk f5 ''technology_expert''"
    unfolding technology_node_def using create_expert_agent_group [OF m] by blast
  obtain s where s: "sectoral_analysis_group_summarizer env = Inr s"
      "is_summarizer s sectoral_analysis_display_name"
    unfolding sectoral_analysis_group_summarizer_def
    using create_group_summarizer_group [OF m] by blast
  let ?g = "create_expert_group_graph ''sectoral_analysis'' [f1, f2, f3, f4, f5] s"
  have g: "sectoral_analysis_group_graph env = Inr ?g"
    by (simp add: sectoral_analysis_group_graph_def f1 f2 f3 f4 f5 s bind_r_def)
  have l: "list_all2 (is_expert ?gk) [f1, f2, f3, f4, f5] sectoral_analysis_expert_names"
    by (simp add: sectoral_analysis_expert_names_def f1 f2 f3 f4 f5)
  have "is_group_graph ?g ?gk sectoral_analysis_expert_names sectoral_analysis_display_name"
    unfolding is_group_graph_def
    by (intro allI impI group_contract [OF l _ s(2)])
       (simp_all add: sectoral_analysis_expert_names_def AgentState_def OutputState_def)
  with g show ?thesis by blast
qed

lemma external_factors_group:
  "\<exists>g. external_factors_group_graph env = Inr g \<and>
     is_group_graph g ''group_4'' external_factors_expert_names external_factors_display_name"
proof -
  let ?gk = "''group_4''"
  have m: "?gk \<in> {''group_1'', ''group_2'', ''group_3'', ''group_4'', ''group_5''}" by simp
  obtain f1 where f1: "global_markets_node env = Inr f1" "is_expert ?gk f1 ''global_markets_expert''"
    unfolding global_markets_node_def using create_expert_agent_group [OF m] by blast
  obtain f2 where f2: "geopolitical_risk_node env = Inr f2" "is_expert ?gk f2 ''geopolitical_risk_analyst''"
    unfolding geopolitical_risk_node_def using create_expert_agent_group [OF m] by blast
  obtain f3 where f3: "regulatory_framework_node env = Inr f3" "is_expert ?gk f3 ''regulatory_framework_expert''"
    unfolding regulatory_framework_node_def using create_expert_agent_group [OF m] by blast
  obtain f4 where f4: "monetary_policy_node env = Inr f4" "is_expert ?gk f4 ''monetary_policy_expert''"
    unfolding monetary_policy_node_def using create_expert_agent_group [OF m] by blast
  obtain f5 where f5: "demographic_trends_node env = Inr f5" "is_expert ?gk f5 ''demographic_trends_expert''"
    unfolding demographic_trends_node_def using create_expert_agent_group [OF m] by blast
  obtain s where s: "external_factors_group_summarizer env = Inr s"
      "is_summarizer s external_factors_display_name"
    unfolding external_factors_group_summarizer_def
    using create_group_summarizer_group [OF m] by blast
  let ?g = "create_expert_group_graph ''external_factors'' [f1, f2, f3, f4, f5] s"
  have g: "external_factors_group_graph env = Inr ?g"
    by (simp add: external_factors_group_graph_def f1 f2 f3 f4 f5 s bind_r_def)
  have l: "list_all2 (is_expert ?gk) [f1, f2, f3, f4, f5] external_factors_expert_names"
    by (simp add: external_factors_expert_names_def f1 f2 f3 f4 f5)
  have "is_group_graph ?g ?gk external_factors_expert_names external_factors_display_name"
    unfolding is_group_graph_def
    by (intro allI impI group_contract [OF l _ s(2)])
       (simp_all add: external_factors_expert_names_def AgentState_def OutputState_def)
  with g show ?thesis by blast
qed

lemma strategy_group:
  "\<exists>g. strategy_group_graph env = Inr g \<and>
     is_group_graph g ''group_5'' strategy_expert_names strategy_display_name"
proof -
  let ?gk = "''group_5''"
  have m: "?gk \<in> {''group_1'', ''group_2'', ''group_3'', ''group_4'', ''group_5''}" by simp
  obtain f1 where f1: "game_theory_node env = Inr f1" "is_expert ?gk f1 ''game_theory_strategist''"
    unfolding game_theory_node_def using create_expert_agent_group [OF m] by blast
  obtain f2 where f2: "risk_management_node env = Inr f2" "is_expert ?gk f2 ''risk_management_expert''"
    unfolding risk_management_node_def using create_expert_agent_group [OF m] by blast
  obtain f3 where f3: "portfolio_optimization_node env = Inr f3" "is_expert ?gk f3 ''portfolio_optimization_expert''"
    unfolding portfolio_optimization_node_def using create_expert_agent_group [OF m] by blast
  obtain f4 where f4: "asset_allocation_node env = Inr f4" "is_expert ?gk f4 ''asset_allocation_strategist''"
    unfolding asset_allocation_node_def using create_expert_agent_group [OF m] by blast
  obtain f5 where f5: "investment_psychology_node env = Inr f5" "is_expert ?gk f5 ''investment_psychology_expert''"
    unfolding investment_psychology_node_def using create_expert_agent_group [OF m] by blast
  obtain s where s: "strategy_group_summarizer env = Inr s"
      "is_summarizer s strategy_display_name"
    unfolding strategy_group_summarizer_def
    using create_group_summarizer_group [OF m] by blast
  let ?g = "create_expert_group_graph ''strategy'' [f1, f2, f3, f4, f5] s"
  have g: "strategy_group_graph env = Inr ?g"
    by (simp add: strategy_group_graph_def f1 f2 f3 f4 f5 s bind_r_def)
  have l: "list_all2 (is_expert ?gk) [f1, f2, f3, f4, f5] strategy_expert_names"
    by (simp add: strategy_expert_names_def f1 f2 f3 f4 f5)
  have "is_group_graph ?g ?gk strategy_expert_names strategy_display_name"
    unfolding is_group_graph_def
    by (intro allI impI group_contract [OF l _ s(2)])
       (simp_all add: strategy_expert_names_def AgentState_def OutputState_def)
  with g show ?thesis by blast
qed


















lemma run_seq_step:
  "f st w = (Inr upd, w') \<Longrightarrow> run_seq (f # fs) st w = run_seq fs (apply_update st upd) w'"
  by simp



section \<open>The task boundary\<close>



text \<open>
  C4 as stated fails. Saving the analysis is inside the same \<^verbatim>\<open>try\<close> as steps 1 to 4 and
  has no handler of its own: on a full disk, after steps 1 to 4 have produced the
  analysis, the task returns the error entry, not the analysis.
\<close>

theorem persistence_failure_counterexample:
  "fst (expert_steps full_disk_env ''p'' ''market_analyst'' (PStr ''q'') start_world) =
     Inr (PList [], [], ''{\"queries\": []}'') \<and>
   fst (expert_analysis full_disk_env ''p'' ''market_analyst'' ''group_1'' ''question_1''
          [(''question_1'', PStr ''q'')] start_world) =
     Inr [(''group_1'',
           PDict [(''market_analyst'', PStr ''Error in analysis: No space left on device'')]),
          (''search_results'',
           PDict [(''market_analyst_search'',
                   PDict [(''error'', PStr ''No space left on device'')])])]"
  by (simp add: agent_defs full_disk_env_def start_world_def)

text \<open>
  C4, amended. When steps 1 to 4 succeed and saving the analysis raises \<open>e\<close>, the
  exception is caught at the task boundary like any other: the task returns the update
  whose group entry maps the expert's name to \<open>"Error in analysis: " + str(e)\<close> and whose
  search entry is \<open>{"error": str(e)}\<close>. The computed analysis is not returned.
\<close>

theorem persistence_failure_degrades:
  assumes "expert_steps env sp name (dict_get st qk (PStr '''')) w =
             (Inr (queries, results, analysis), w1)"
    and "save_expert_analysis env name analysis (dict_get st qk (PStr '''')) w1 = (Inl e, w2)"
    and "group_key \<noteq> ''search_results''"
  shows "expert_analysis env sp name group_key qk st w =
           (Inr [(group_key, PDict [(name, PStr (''Error in analysis: '' @ exc_str e))]),
                 (''search_results'',
                  PDict [(name @ ''_search'', PDict [(''error'', PStr (exc_str e))])])], w2)"
  using assms
  by (simp add: expert_analysis_def expert_body_def try_except_def bind_def ret_def Let_def
      expert_failure_def)

theorem persistence_failure_degrades_witness:
  "expert_steps full_disk_env ''p'' ''market_analyst''
     (dict_get [(''question_1'', PStr ''q'')] ''question_1'' (PStr '''')) start_world =
     (Inr (PList [], [], ''{\"queries\": []}''),
      \<lparr>outside = (),
       calls = [ModelCall (ChatOpenAI ''gpt-4o-mini'' 0 ''sk-test'')
                  (query_messages (\<lambda>v. '''') ''p'' (PStr ''q'') ''market_analyst''),
                ModelCall (ChatOpenAI ''gpt-4o-mini'' 0 ''sk-test'')
                  (analysis_messages (\<lambda>v. '''') ''p'' (PStr ''q'')
                     (compile_search_results (\<lambda>v. '''') []) ''market_analyst'')]\<rparr>) \<and>
   ''group_1'' \<noteq> ''search_results'' \<and>
   fst (expert_analysis full_disk_env ''p'' ''market_analyst'' ''group_1'' ''question_1''
          [(''question_1'', PStr ''q'')] start_world) =
     Inr [(''group_1'',
           PDict [(''market_analyst'', PStr ''Error in analysis: No space left on device'')]),
          (''search_results'',
           PDict [(''market_analyst_search'',
                   PDict [(''error'', PStr ''No space left on device'')])])]"
proof -
  let ?w1 = "\<lparr>outside = (),
       calls = [ModelCall (ChatOpenAI ''gpt-4o-mini'' 0 ''sk-test'')
                  (query_messages (\<lambda>v. '''') ''p'' (PStr ''q'') ''market_analyst''),
                ModelCall (ChatOpenAI ''gpt-4o-mini'' 0 ''sk-test'')
                  (analysis_messages (\<lambda>v. '''') ''p'' (PStr ''q'')
                     (compile_search_results (\<lambda>v. '''') []) ''market_analyst'')]\<rparr>"
  have s: "expert_steps full_disk_env ''p'' ''market_analyst''
     (dict_get [(''question_1'', PStr ''q'')] ''question_1'' (PStr '''')) start_world =
     (Inr (PList [], [], ''{\"queries\": []}''), ?w1)"
    by (simp add: agent_defs full_disk_env_def start_world_def py_str_def)
  have v: "save_expert_analysis full_disk_env ''market_analyst'' ''{\"queries\": []}''
     (dict_get [(''question_1'', PStr ''q'')] ''question_1'' (PStr '''')) ?w1 =
     (Inl (PyException ''OSError'' ''No space left on device''),
      \<lparr>outside = (), calls = calls ?w1 @
         [MkdirCall expert_responses_dir,
          WriteCall (expert_responses_dir @ [''market_analyst.txt''])
            (''=== ANALYSIS FROM market_analyst ===\<newline>\<newline>'' @
             ''Question: q\<newline>\<newline>'' @ ''{\"queries\": []}'')]\<rparr>)"
    by (simp add: agent_defs full_disk_env_def py_str_def)
  have h: "''group_1'' \<noteq> ''search_results''" by simp
  show ?thesis
    using persistence_failure_degrades [OF s v h] s by simp
qed

section \<open>Query extraction\<close>

text \<open>
  C5. On the fallback path the code does not return the quoted lines stripped of their
  quotes: \<^verbatim>\<open>strip('"\'')\<close> runs before \<^verbatim>\<open>strip(',')\<close>, so on a line that ends with a comma
  the closing quote is still there when the comma goes. For the response below, which is
  not JSON, the first query comes back as \<^verbatim>\<open>Vietnam banking stocks"\<close>.
\<close>

theorem fallback_keeps_closing_quote:
  "extract_queries (\<lambda>s. Inl (PyException ''JSONDecodeError'' ''Expecting value: line 1 column 1 (char 0)''))
     ''Here are the queries:\<newline>\"Vietnam banking stocks\",\<newline>\"VN-Index outlook\"'' =
   PList [PStr ''Vietnam banking stocks\"'', PStr ''VN-Index outlook'']"
  by (simp add: extract_queries_def parse_queries_def extract_json_str_def py_in_def bind_r_def
      fallback_queries_def py_split.simps quoted_line_def clean_line_def py_strip_def
      py_strip_chars_def is_space_def is_quote_def is_comma_def py_startswith_def)

text \<open>
  C6. Two runs of \<^verbatim>\<open>generate_search_queries\<close> in which the model answers with the same
  well-formed response (unfenced, in a fence tagged \<^verbatim>\<open>json\<close>, or in a fence without a
  tag) whose JSON text parses to an object with a list under \<open>"queries"\<close> both return that
  list, whatever the state of the outside, the model handle, the persona, the question
  and the expert's name are in each run.
\<close>

theorem query_extraction_deterministic:
  assumes "well_formed_response r"
    and "json_loads env (json_text r) = Inr (PDict d)"
    and "map_of d ''queries'' = Some (PList qs)"
    and "fst (llm_invoke env (outside w1) l1 (query_messages (str_other env) sp1 q1 n1)) =
           Inr (render_response r)"
    and "fst (llm_invoke env (outside w2) l2 (query_messages (str_other env) sp2 q2 n2)) =
           Inr (render_response r)"
  shows "fst (generate_search_queries env l1 sp1 q1 n1 w1) = Inr (PList qs) \<and>
         fst (generate_search_queries env l2 sp2 q2 n2 w2) = Inr (PList qs)"
proof -
  have "extract_queries (json_loads env) (render_response r) = PList qs"
    using extract_well_formed [OF assms(1)] assms(2,3)
    by (simp add: extract_queries_def parse_queries_def bind_r_def py_get_def)
  with generate_search_queries_result [OF assms(4)] generate_search_queries_result [OF assms(5)]
  show ?thesis by simp
qed

theorem query_extraction_deterministic_witness:
  "well_formed_response
     (FencedJson ''Here you go:\<newline>'' (''\<newline>'' @ six_queries_json @ ''\<newline>'') ''\<newline>'') \<and>
   json_loads six_queries_env
     (json_text (FencedJson ''Here you go:\<newline>'' (''\<newline>'' @ six_queries_json @ ''\<newline>'') ''\<newline>'')) =
     Inr (PDict [(''queries'', PList (map PStr [''a'', ''b'', ''c'', ''d'', ''e'', ''f'']))]) \<and>
   fst (generate_search_queries six_queries_env (ChatOpenAI ''gpt-4o-mini'' 0 ''k1'')
          ''persona one'' (PStr ''first question'') ''market_analyst'' (counting_world 0)) =
     Inr (PList (map PStr [''a'', ''b'', ''c'', ''d'', ''e'', ''f''])) \<and>
   fst (generate_search_queries six_queries_env (ChatOpenAI ''gpt-4o-mini'' 0 ''k2'')
          ''persona two'' (PStr ''second question'') ''valuation_expert'' (counting_world 7)) =
     Inr (PList (map PStr [''a'', ''b'', ''c'', ''d'', ''e'', ''f'']))"
proof -
  let ?r = "FencedJson ''Here you go:\<newline>'' (''\<newline>'' @ six_queries_json @ ''\<newline>'') ''\<newline>''"
  let ?d = "[(''queries'', PList (map PStr [''a'', ''b'', ''c'', ''d'', ''e'', ''f'']))]"
  have wf: "well_formed_response ?r"
    by (simp add: backtick_free_def six_queries_json_def)
  have js: "json_text ?r = six_queries_json"
    by (simp add: py_strip_def py_strip_chars_def is_space_def six_queries_json_def)
  have ld: "json_loads six_queries_env (json_text ?r) = Inr (PDict ?d)"
    by (simp only: js) (simp add: six_queries_env_def)
  have q: "map_of ?d ''queries'' = Some (PList (map PStr [''a'', ''b'', ''c'', ''d'', ''e'', ''f'']))"
    by simp
  have r1: "fst (llm_invoke six_queries_env (outside (counting_world 0))
              (ChatOpenAI ''gpt-4o-mini'' 0 ''k1'')
              (query_messages (str_other six_queries_env) ''persona one'' (PStr ''first question'')
                 ''market_analyst'')) = Inr (render_response ?r)"
    by (simp add: six_queries_env_def)
  have r2: "fst (llm_invoke six_queries_env (outside (counting_world 7))
              (ChatOpenAI ''gpt-4o-mini'' 0 ''k2'')
              (query_messages (str_other six_queries_env) ''persona two'' (PStr ''second question'')
                 ''valuation_expert'')) = Inr (render_response ?r)"
    by (simp add: six_queries_env_def)
  from query_extraction_deterministic [OF wf ld q r1 r2] wf ld show ?thesis by simp
qed

text \<open>
  C9. When the text extracted from the response parses to an object,
  \<^verbatim>\<open>generate_search_queries\<close> returns the value under \<open>"queries"\<close> as it is, of any
  length, and the empty list when the object has no such key. Only when the extraction
  raises is the result the fallback's, which has at most five entries.
\<close>

theorem parsed_queries_returned_whole:
  assumes "fst (llm_invoke env (outside w) l (query_messages (str_other env) sp q name)) = Inr content"
  shows "(\<forall>js d. extract_json_str content = Inr js \<and> json_loads env js = Inr (PDict d) \<longrightarrow>
            fst (generate_search_queries env l sp q name w) =
              Inr (case map_of d ''queries'' of Some v \<Rightarrow> v | None \<Rightarrow> PList [])) \<and>
         (\<forall>e. parse_queries (json_loads env) content = Inl e \<longrightarrow>
            fst (generate_search_queries env l sp q name w) =
              Inr (PList (map PStr (fallback_queries content))) \<and>
            length (fallback_queries content) \<le> 5)"
  using generate_search_queries_result [OF assms]
  by (auto simp: extract_queries_def parse_queries_def bind_r_def py_get_def fallback_at_most_five)

theorem parsed_queries_returned_whole_witness:
  "fst (llm_invoke six_queries_env (outside (counting_world 0)) (ChatOpenAI ''gpt-4o-mini'' 0 ''k1'')
          (query_messages (str_other six_queries_env) ''persona'' (PStr ''question'') ''market_analyst'')) =
     Inr (''Here you go:\<newline>```json\<newline>'' @ six_queries_json @ ''\<newline>```\<newline>'') \<and>
   extract_json_str (''Here you go:\<newline>```json\<newline>'' @ six_queries_json @ ''\<newline>```\<newline>'') =
     Inr six_queries_json \<and>
   fst (generate_search_queries six_queries_env (ChatOpenAI ''gpt-4o-mini'' 0 ''k1'') ''persona''
          (PStr ''question'') ''market_analyst'' (counting_world 0)) =
     Inr (PList (map PStr [''a'', ''b'', ''c'', ''d'', ''e'', ''f''])) \<and>
   parse_queries (json_loads no_key_env) '''' =
     Inl (PyException ''JSONDecodeError'' ''Expecting value'') \<and>
   fst (generate_search_queries no_key_env (ChatOpenAI ''gpt-4o-mini'' 0 ''k1'') ''persona''
          (PStr ''question'') ''market_analyst'' start_world) = Inr (PList [])"
proof -
  let ?c = "''Here you go:\<newline>```json\<newline>'' @ six_queries_json @ ''\<newline>```\<newline>''"
  let ?l = "ChatOpenAI ''gpt-4o-mini'' 0 ''k1''"
  have a: "fst (llm_invoke six_queries_env (outside (counting_world 0)) ?l
          (query_messages (str_other six_queries_env) ''persona'' (PStr ''question'') ''market_analyst'')) =
     Inr ?c"
    by (simp add: six_queries_env_def)
  have x: "extract_json_str ?c = Inr six_queries_json"
    by (simp add: extract_json_str_def py_in_def py_split.simps py_index_def bind_r_def
        py_strip_def py_strip_chars_def is_space_def six_queries_json_def)
  have ld: "json_loads six_queries_env six_queries_json =
      Inr (PDict [(''queries'', PList (map PStr [''a'', ''b'', ''c'', ''d'', ''e'', ''f'']))])"
    by (simp add: six_queries_env_def)
  have b: "fst (llm_invoke no_key_env (outside start_world) ?l
          (query_messages (str_other no_key_env) ''persona'' (PStr ''question'') ''market_analyst'')) =
     Inr ''''"
    by (simp add: no_key_env_def)
  have p: "parse_queries (json_loads no_key_env) '''' =
     Inl (PyException ''JSONDecodeError'' ''Expecting value'')"
    by (simp add: parse_queries_def extract_json_str_def py_in_def bind_r_def no_key_env_def)
  have f: "fallback_queries '''' = []"
    by (simp add: fallback_queries_def py_split.simps quoted_line_def py_strip_def
        py_strip_chars_def py_startswith_def)
  from parsed_queries_returned_whole [OF a] x ld
  have one: "fst (generate_search_queries six_queries_env ?l ''persona''
          (PStr ''question'') ''market_analyst'' (counting_world 0)) =
     Inr (PList (map PStr [''a'', ''b'', ''c'', ''d'', ''e'', ''f'']))"
    by simp
  from parsed_queries_returned_whole [OF b] p f
  have two: "fst (generate_search_queries no_key_env ?l ''persona''
          (PStr ''question'') ''market_analyst'' start_world) = Inr (PList [])"
    by simp
  from a x one p two show ?thesis by simp
qed

section \<open>The question an agent reads\<close>



section \<open>The final synthesis\<close>

text \<open>
  C8. The final synthesizer takes the question from the canonical \<open>question\<close> field, or,
  when that is empty, from the first non-empty of \<open>question_1\<close> to \<open>question_5\<close> (and the
  placeholder \<open>No question provided\<close> when all are empty). When its body succeeds, it has
  rendered the entries of \<open>group_summaries\<close>, has called the model exactly once, with that
  question and those summaries, and returns the model's answer under \<open>final_report\<close>.
\<close>

theorem final_synthesis_reads_and_writes:
  "resolve_question st =
     (case filter py_truthy (map (\<lambda>k. dict_get st k (PStr ''''))
             [''question'', ''question_1'', ''question_2'', ''question_3'', ''question_4'',
              ''question_5'']) of
        [] \<Rightarrow> PStr ''No question provided''
      | v # _ \<Rightarrow> v) \<and>
   (\<forall>u w'. final_body env st w = (Inr u, w') \<longrightarrow>
      (\<exists>entries l report.
         py_items (dict_get st ''group_summaries'' (PDict [])) = Inr entries \<and>
         get_model env w = (Inr l, w) \<and>
         fst (llm_invoke env (outside w) l
                (final_messages (str_other env) (resolve_question st)
                   (concat (map (render_summary (str_other env)) entries)))) = Inr report \<and>
         u = [(''final_report'', PStr report)] \<and>
         final_synthesizer env st w = (Inr u, w') \<and>
         model_calls w' = model_calls w @
           [ModelCall l (final_messages (str_other env) (resolve_question st)
                           (concat (map (render_summary (str_other env)) entries)))]))"
proof (intro conjI allI impI)
  show "resolve_question st =
     (case filter py_truthy (map (\<lambda>k. dict_get st k (PStr ''''))
             [''question'', ''question_1'', ''question_2'', ''question_3'', ''question_4'',
              ''question_5'']) of
        [] \<Rightarrow> PStr ''No question provided''
      | v # _ \<Rightarrow> v)"
    by (rule resolve_question_first_populated)
next
  fix u w'
  assume body: "final_body env st w = (Inr u, w')"
  then obtain rendered where rendered: "render_summaries (str_other env) st = Inr rendered"
    by (cases "render_summaries (str_other env) st")
       (auto simp: final_body_def bind_def lift_r_def)
  from rendered obtain entries where entries:
      "py_items (dict_get st ''group_summaries'' (PDict [])) = Inr entries"
      "rendered = concat (map (render_summary (str_other env)) entries)"
    by (auto simp: render_summaries_def bind_r_def split: sum.splits)
  let ?msgs = "final_messages (str_other env) (resolve_question st) rendered"
  from body rendered obtain l where l: "get_model env w = (Inr l, w)"
    by (cases "get_model env w")
       (auto simp: final_body_def bind_def lift_r_def Let_def split: sum.splits
             dest: get_model_world)
  obtain r out where inv: "llm_invoke env (outside w) l ?msgs = (r, out)"
    by (cases "llm_invoke env (outside w) l ?msgs")
  let ?w1 = "\<lparr>outside = out, calls = calls w @ [ModelCall l ?msgs]\<rparr>"
  from body rendered l inv obtain report where report: "r = Inr report"
    by (cases r) (auto simp: final_body_def bind_def lift_r_def Let_def call_invoke_def)
  obtain r2 out2 where mk: "mkdir env out [''investment_strategies''] = (r2, out2)"
    by (cases "mkdir env out [''investment_strategies'']")
  let ?text = "''=== OPTIMAL INVESTMENT STRATEGY ===\<newline>\<newline>'' @
         ''Question: '' @ py_str (str_other env) (resolve_question st) @ ''\<newline>\<newline>'' @ report"
  obtain r3 out3 where wr: "write_text env out2
      [''investment_strategies'', ''final_investment_strategy.txt''] ?text = (r3, out3)"
    by (cases "write_text env out2
      [''investment_strategies'', ''final_investment_strategy.txt''] ?text")
  from body rendered l inv report mk wr have
    u: "u = [(''final_report'', PStr report)]" and
    w': "w' = \<lparr>outside = out3, calls = calls w @ [ModelCall l ?msgs,
           MkdirCall [''investment_strategies''],
           WriteCall [''investment_strategies'', ''final_investment_strategy.txt''] ?text]\<rparr>"
    by (auto simp: final_body_def bind_def lift_r_def Let_def call_invoke_def call_mkdir_def
        call_write_def ret_def split: sum.splits)
  have fs: "final_synthesizer env st w = (Inr u, w')"
    using body by (simp add: final_synthesizer_def try_except_def)
  have mc: "model_calls w' = model_calls w @ [ModelCall l ?msgs]"
    by (simp add: w' model_calls_def)
  from entries l inv report u fs mc
  show "\<exists>entries l report.
         py_items (dict_get st ''group_summaries'' (PDict [])) = Inr entries \<and>
         get_model env w = (Inr l, w) \<and>
         fst (llm_invoke env (outside w) l
                (final_messages (str_other env) (resolve_question st)
                   (concat (map (render_summary (str_other env)) entries)))) = Inr report \<and>
         u = [(''final_report'', PStr report)] \<and>
         final_synthesizer env st w = (Inr u, w') \<and>
         model_calls w' = model_calls w @
           [ModelCall l (final_messages (str_other env) (resolve_question st)
                           (concat (map (render_summary (str_other env)) entries)))]"
    by (intro exI [of _ entries] exI [of _ l] exI [of _ report]) simp
qed

theorem final_synthesis_reads_and_writes_witness:
  "resolve_question
     [(''question'', PStr ''''), (''question_2'', PStr ''''),
      (''question_3'', PStr ''Should I invest?''),
      (''group_summaries'', PDict [(''Strategy'', PStr ''hold'')])] = PStr ''Should I invest?'' \<and>
   fst (final_body canned_env
     [(''question'', PStr ''''), (''question_2'', PStr ''''),
      (''question_3'', PStr ''Should I invest?''),
      (''group_summaries'', PDict [(''Strategy'', PStr ''hold'')])] start_world) =
     Inr [(''final_report'', PStr ''{\"queries\": []}'')] \<and>
   fst (final_synthesizer canned_env
     [(''question'', PStr ''''), (''question_2'', PStr ''''),
      (''question_3'', PStr ''Should I invest?''),
      (''group_summaries'', PDict [(''Strategy'', PStr ''hold'')])] start_world) =
     Inr [(''final_report'', PStr ''{\"queries\": []}'')]"
proof -
  let ?st = "[(''question'', PStr ''''), (''question_2'', PStr ''''),
      (''question_3'', PStr ''Should I invest?''),
      (''group_summaries'', PDict [(''Strategy'', PStr ''hold'')])]"
  let ?u = "[(''final_report'', PStr ''{\"queries\": []}'')]"
  let ?w = "snd (final_body canned_env ?st start_world)"
  have b: "fst (final_body canned_env ?st start_world) = Inr ?u"
    by (simp add: final_body_def render_summaries_def py_items_def agent_defs canned_env_def
        start_world_def)
  then have b': "final_body canned_env ?st start_world = (Inr ?u, ?w)"
    by (metis prod.collapse)
  note T = final_synthesis_reads_and_writes [of ?st canned_env start_world]
  from T have q: "resolve_question ?st =
     (case filter py_truthy (map (\<lambda>k. dict_get ?st k (PStr ''''))
             [''question'', ''question_1'', ''question_2'', ''question_3'', ''question_4'',
              ''question_5'']) of
        [] \<Rightarrow> PStr ''No question provided''
      | v # _ \<Rightarrow> v)"
    by (rule conjunct1)
  have q': "resolve_question ?st = PStr ''Should I invest?''"
    by (subst q) (simp add: dict_get_def)
  from T have "final_body canned_env ?st start_world = (Inr ?u, ?w) \<longrightarrow>
      (\<exists>entries l report.
         py_items (dict_get ?st ''group_summaries'' (PDict [])) = Inr entries \<and>
         get_model canned_env start_world = (Inr l, start_world) \<and>
         fst (llm_invoke canned_env (outside start_world) l
                (final_messages (str_other canned_env) (resolve_question ?st)
                   (concat (map (render_summary (str_other canned_env)) entries)))) = Inr report \<and>
         ?u = [(''final_report'', PStr report)] \<and>
         final_synthesizer canned_env ?st start_world = (Inr ?u, ?w) \<and>
         model_calls ?w = model_calls start_world @
           [ModelCall l (final_messages (str_other canned_env) (resolve_question ?st)
                           (concat (map (render_summary (str_other canned_env)) entries)))])"
    by (elim conjE allE)
  with b' have "final_synthesizer canned_env ?st start_world = (Inr ?u, ?w)"
    by (elim impE exE conjE)
  then have f: "fst (final_synthesizer canned_env ?st start_world) = Inr ?u"
    by (simp only: fst_conv)
  from q' b f show ?thesis by (intro conjI)
qed

section \<open>The group graph\<close>

text \<open>
  C7. The graph built for a list of experts is the chain from the start through
  \<open>expert_0\<close>, \<open>expert_1\<close>, ... in the order of the list, then the summarizer, to the end;
  the names on that path are distinct, and the experts are bound to the names in the
  order of the list. With no experts the start is connected to the summarizer. In every
  execution of that graph at most one node is running at any time, and the schedule
  function runs the experts and then the summarizer one after the other.
\<close>

theorem group_graph_chains_experts:
  "graph_edges (create_expert_group_graph group_name expert_nodes summarizer_node) =
     chain (START # expert_node_names (length expert_nodes) @ [group_name @ ''_summarizer'', END]) \<and>
   graph_nodes (create_expert_group_graph group_name expert_nodes summarizer_node) =
     zip (expert_node_names (length expert_nodes)) expert_nodes
       @ [(group_name @ ''_summarizer'', summarizer_node)] \<and>
   distinct (START # expert_node_names (length expert_nodes) @ [group_name @ ''_summarizer'', END]) \<and>
   (expert_nodes = [] \<longrightarrow>
      graph_edges (create_expert_group_graph group_name expert_nodes summarizer_node) =
        [(START, group_name @ ''_summarizer''), (group_name @ ''_summarizer'', END)]) \<and>
   (\<forall>input w cfg.
      reachable (create_expert_group_graph group_name expert_nodes summarizer_node)
        (initial_config (create_expert_group_graph group_name expert_nodes summarizer_node) input w)
        cfg \<longrightarrow> length (running cfg) \<le> 1) \<and>
   (\<forall>st w.
      run_nodes (create_expert_group_graph group_name expert_nodes summarizer_node)
        (map fst (graph_nodes (create_expert_group_graph group_name expert_nodes summarizer_node)))
        [] st w = run_seq (expert_nodes @ [summarizer_node]) st w)"
proof (intro conjI allI impI)
  show "graph_edges (create_expert_group_graph group_name expert_nodes summarizer_node) =
     chain (START # expert_node_names (length expert_nodes) @ [group_name @ ''_summarizer'', END])"
    by (rule group_graph_edges)
  show "graph_nodes (create_expert_group_graph group_name expert_nodes summarizer_node) =
     zip (expert_node_names (length expert_nodes)) expert_nodes
       @ [(group_name @ ''_summarizer'', summarizer_node)]"
    by (rule group_graph_nodes)
  show "distinct (START # expert_node_names (length expert_nodes) @ [group_name @ ''_summarizer'', END])"
    using START_not_summarizer [of group_name] END_not_summarizer [of group_name]
    by (simp add: distinct_expert_node_names summarizer_not_expert START_not_expert
        END_not_expert) (simp add: START_def END_def)
next
  assume "expert_nodes = []"
  then show "graph_edges (create_expert_group_graph group_name expert_nodes summarizer_node) =
        [(START, group_name @ ''_summarizer''), (group_name @ ''_summarizer'', END)]"
    by (simp add: group_graph_edges chain_def expert_node_names_def)
next
  fix input w cfg
  assume "reachable (create_expert_group_graph group_name expert_nodes summarizer_node)
        (initial_config (create_expert_group_graph group_name expert_nodes summarizer_node) input w)
        cfg"
  then show "length (running cfg) \<le> 1"
    by (rule chain_never_concurrent [OF group_graph_is_chain])
next
  fix st w
  show "run_nodes (create_expert_group_graph group_name expert_nodes summarizer_node)
        (map fst (graph_nodes (create_expert_group_graph group_name expert_nodes summarizer_node)))
        [] st w = run_seq (expert_nodes @ [summarizer_node]) st w"
    by (rule run_group_graph)
qed

theorem group_graph_chains_experts_witness:
  "graph_edges two_expert_graph =
     [(START, ''expert_0''), (''expert_0'', ''expert_1''),
      (''expert_1'', ''market_analysis_summarizer''), (''market_analysis_summarizer'', END)] \<and>
   graph_edges (create_expert_group_graph ''market_analysis'' []
       (summarize_group no_key_env ''Market Analysis'' [] ''group_1'' ''question_1'')) =
     [(START, ''market_analysis_summarizer''), (''market_analysis_summarizer'', END)] \<and>
   reachable two_expert_graph (initial_config two_expert_graph [] start_world)
     ((initial_config two_expert_graph [] start_world)
        \<lparr>running := [(''expert_0'', run_state (initial_config two_expert_graph [] start_world))]\<rparr>) \<and>
   length (running ((initial_config two_expert_graph [] start_world)
        \<lparr>running := [(''expert_0'', run_state (initial_config two_expert_graph [] start_world))]\<rparr>)) \<le> 1"
proof -
  let ?s = "summarize_group no_key_env ''Market Analysis'' [] ''group_1'' ''question_1''"
  let ?c0 = "initial_config two_expert_graph [] start_world"
  let ?c1 = "?c0\<lparr>running := [(''expert_0'', run_state ?c0)]\<rparr>"
  note T = group_graph_chains_experts
  have e: "graph_edges two_expert_graph =
     [(START, ''expert_0''), (''expert_0'', ''expert_1''),
      (''expert_1'', ''market_analysis_summarizer''), (''market_analysis_summarizer'', END)]"
    unfolding two_expert_graph_def T [THEN conjunct1]
    by (simp add: chain_def expert_node_names_2)
  have "[] = ([] :: unit node list)" by simp
  with T [of "''market_analysis''" "[]" ?s, THEN conjunct2, THEN conjunct2, THEN conjunct2, THEN conjunct1]
  have z: "graph_edges (create_expert_group_graph ''market_analysis'' [] ?s) =
     [(START, ''market_analysis_summarizer''), (''market_analysis_summarizer'', END)]"
    by simp
  have ch: "is_chain two_expert_graph [''expert_0'', ''expert_1'', ''market_analysis_summarizer'']"
    using group_graph_is_chain [of "''market_analysis''"
        "[expert_analysis no_key_env '''' ''market_analyst'' ''group_1'' ''question_1'',
          expert_analysis no_key_env '''' ''technical_analyst'' ''group_1'' ''question_1'']"
        "summarize_group no_key_env ''Market Analysis'' [''market_analyst'', ''technical_analyst'']
          ''group_1'' ''question_1''"]
    by (simp add: two_expert_graph_def expert_node_names_2)
  have rd: "ready two_expert_graph (finished ?c0) ''expert_0''"
    using ready_chain [OF ch, of 0] by (simp add: initial_config_def)
  have mem: "''expert_0'' \<in> set (map fst (graph_nodes two_expert_graph))"
    using ch by (simp add: is_chain_def)
  have nr: "''expert_0'' \<notin> set (map fst (running ?c0))"
    by (simp add: initial_config_def)
  have st: "step two_expert_graph ?c0 (?c0\<lparr>running := (''expert_0'', run_state ?c0) # running ?c0\<rparr>)"
    by (rule step.start [OF mem nr rd])
  have "running ?c0 = []" by (simp add: initial_config_def)
  with st have st': "step two_expert_graph ?c0 ?c1" by simp
  have r: "reachable two_expert_graph ?c0 ?c1"
    by (rule reachable.reach_step [OF reachable.reach_refl st'])
  from T [of "''market_analysis''" _ _, folded two_expert_graph_def,
      THEN conjunct2, THEN conjunct2, THEN conjunct2, THEN conjunct2, THEN conjunct1]
  have "\<forall>input w cfg. reachable two_expert_graph (initial_config two_expert_graph input w) cfg
      \<longrightarrow> length (running cfg) \<le> 1"
    unfolding two_expert_graph_def by blast
  with r have l: "length (running ?c1) \<le> 1" by blast
  from e z r l show ?thesis by (intro conjI)
qed

section \<open>The pipeline\<close>



end
